theory Spec2Isabelle
  imports Main "HOL-Library.AList"
begin

section \<open>Lumora: the store, the survey scorer, tailoring and assignment of \<open>app.py\<close>\<close>

text \<open>
  The application keeps six SQLite tables and reaches them through one-statement helper
  functions. Each table is modelled as the list of its rows in insertion order, the
  database as a record of tables that every helper takes and returns. Exceptions are
  values of \<open>py_error\<close>; the messages a page handler shows through Streamlit are returned
  as a list of \<open>ui_msg\<close>. A Python \<open>str\<close> is a \<open>string\<close>, one \<open>char\<close> per code point
  (code points below 256). The clock (\<open>datetime.now().isoformat()\<close>), the random draws
  of \<open>random.choices\<close>, the digest \<open>hashlib.sha256(...).hexdigest()\<close> and the answer of
  the hosted language model are library results and are parameters of the model.
\<close>

subsection \<open>Python values\<close>

datatype py_error = ValueError | TypeError | IntegrityError

datatype ui_msg =
    Error string
  | Success string
  | Info string
  | Progress nat nat

definition nl :: char where
  "nl = CHR 0x0A"

text \<open>\<open>str.isspace\<close> on one code point below 256: the ASCII controls 9 to 13 and 28 to 31,
  the space, NEL (133) and the no-break space (160).\<close>

definition is_space :: "char \<Rightarrow> bool" where
  "is_space c = (let n = (of_char c :: nat) in
     (9 \<le> n \<and> n \<le> 13) \<or> (28 \<le> n \<and> n \<le> 32) \<or> n = 133 \<or> n = 160)"

text \<open>\<open>s.strip()\<close>: leading and trailing whitespace removed.\<close>

definition lstrip :: "string \<Rightarrow> string" where
  "lstrip s = dropWhile is_space s"

definition rstrip :: "string \<Rightarrow> string" where
  "rstrip s = rev (dropWhile is_space (rev s))"

definition strip :: "string \<Rightarrow> string" where
  "strip s = rstrip (lstrip s)"

text \<open>\<open>s.replace("\n", " ")\<close>: the pattern is one character, so every occurrence is
  replaced where it stands.\<close>

definition replace_nl :: "string \<Rightarrow> string" where
  "replace_nl s = map (\<lambda>c. if c = nl then CHR '' '' else c) s"

text \<open>A \<open>dict\<close> is an association list with distinct keys in insertion order;
  \<open>d[k] = v\<close> is \<open>AList.update\<close>, which overwrites in place or appends at the end.
  \<open>max(iterable, key=f)\<close> keeps the first item and replaces it only by an item whose key
  is strictly greater; on an empty iterable it raises \<open>ValueError\<close>. The key function
  of the survey is \<open>dict.get\<close>, which answers \<open>None\<close> for a missing key; comparing
  \<open>None\<close> with an integer raises \<open>TypeError\<close>.\<close>

fun max_loop :: "('k \<Rightarrow> int option) \<Rightarrow> 'k \<Rightarrow> int \<Rightarrow> 'k list \<Rightarrow> py_error + 'k" where
  "max_loop key maxitem maxval [] = Inr maxitem"
| "max_loop key maxitem maxval (item # rest) =
     (case key item of
        None \<Rightarrow> Inl TypeError
      | Some val \<Rightarrow>
          if val > maxval then max_loop key item val rest
          else max_loop key maxitem maxval rest)"

definition py_max :: "('k \<Rightarrow> int option) \<Rightarrow> 'k list \<Rightarrow> py_error + 'k" where
  "py_max key items =
     (case items of
        [] \<Rightarrow> Inl ValueError
      | item # rest \<Rightarrow>
          (case key item of
             None \<Rightarrow> (if rest = [] then Inr item else Inl TypeError)
           | Some val \<Rightarrow> max_loop key item val rest))"

subsection \<open>The store\<close>

record user_row =
  u_id :: nat
  u_name :: string
  u_role :: string
  u_password :: string

record survey_row =
  s_id :: nat
  s_user_id :: nat
  s_mi_scores :: "(string \<times> int) list"
  s_dominant_mi :: string
  s_created_at :: string

record class_row =
  c_id :: nat
  c_teacher_id :: nat
  c_name :: string
  c_code :: string
  c_created_at :: string

record member_row =
  m_id :: nat
  m_class_id :: nat
  m_student_id :: nat
  m_joined_at :: string

record class_lesson_row =
  cl_id :: nat
  cl_class_id :: nat
  cl_student_id :: nat
  cl_topic :: string
  cl_subject :: string
  cl_mi_type :: string
  cl_content :: string
  cl_created_at :: string

record db =
  users :: "user_row list"
  survey_results :: "survey_row list"
  classes :: "class_row list"
  class_members :: "member_row list"
  class_lessons :: "class_lesson_row list"

text \<open>\<open>init_db\<close> on a fresh file: every table exists and is empty.\<close>

definition init_db :: db where
  "init_db = \<lparr>users = [], survey_results = [], classes = [], class_members = [],
     class_lessons = []\<rparr>"

text \<open>An \<open>INTEGER PRIMARY KEY\<close> column left out of an \<open>INSERT\<close> gets the largest id of
  the table plus one, and 1 in an empty table.\<close>

definition next_rowid :: "nat list \<Rightarrow> nat" where
  "next_rowid ids = fold max ids 0 + 1"

text \<open>\<open>fetchone()\<close> is the first row of the result, or \<open>None\<close>.\<close>

definition fetchone :: "'a list \<Rightarrow> 'a option" where
  "fetchone rows = (case rows of [] \<Rightarrow> None | r # _ \<Rightarrow> Some r)"

subsection \<open>Survey scorer\<close>

definition save_survey :: "db \<Rightarrow> nat \<Rightarrow> (string \<times> int) list \<Rightarrow> string \<Rightarrow> string \<Rightarrow> db" where
  "save_survey d user_id mi_scores dominant now =
     d\<lparr>survey_results := survey_results d @
        [\<lparr>s_id = next_rowid (map s_id (survey_results d)), s_user_id = user_id,
          s_mi_scores = mi_scores, s_dominant_mi = dominant, s_created_at = now\<rparr>]\<rparr>"

text \<open>\<open>{mi: sum(vals) for mi, vals in responses.items()}\<close>\<close>

definition sum_scores :: "(string \<times> int list) list \<Rightarrow> (string \<times> int) list" where
  "sum_scores responses =
     fold (\<lambda>(mi, vals) acc. AList.update mi (sum_list vals) acc) responses []"

text \<open>The handler of the "Submit Survey" button: the scores, the dominant category,
  the row saved and the message shown.\<close>

definition submit_survey ::
  "db \<Rightarrow> nat \<Rightarrow> (string \<times> int list) list \<Rightarrow> string \<Rightarrow>
   py_error + (db \<times> string \<times> (string \<times> int) list \<times> ui_msg list)" where
  "submit_survey d user_id responses now =
     (let mi_scores = sum_scores responses in
      case py_max (map_of mi_scores) (map fst mi_scores) of
        Inl e \<Rightarrow> Inl e
      | Inr dominant \<Rightarrow>
          Inr (save_survey d user_id mi_scores dominant now, dominant, mi_scores,
               [Success (''Survey saved. Dominant intelligence: '' @ dominant)]))"

text \<open>The seven categories, in the order the \<open>questions\<close> dictionary lists them.\<close>

definition categories :: "string list" where
  "categories = [''Linguistic'', ''Logical-Mathematical'', ''Visual-Spatial'',
     ''Bodily-Kinesthetic'', ''Musical'', ''Interpersonal'', ''Intrapersonal'']"

text \<open>A valid submission: the seven categories in that order, five ratings each, every
  rating from 1 to 5 (what the sliders deliver).\<close>

definition valid_submission :: "(string \<times> int list) list \<Rightarrow> bool" where
  "valid_submission responses =
     (map fst responses = categories \<and>
      list_all (\<lambda>(mi, vals). length vals = 5 \<and> list_all (\<lambda>v. 1 \<le> v \<and> v \<le> 5) vals)
        responses)"

subsection \<open>Accounts\<close>

text \<open>\<open>hash_pw\<close> is the hexadecimal SHA-256 digest of the encoded password; the digest
  function of \<open>hashlib\<close> is the parameter \<open>sha256_hex\<close>.\<close>

definition hash_pw :: "(string \<Rightarrow> string) \<Rightarrow> string \<Rightarrow> string" where
  "hash_pw sha256_hex pw = sha256_hex pw"

definition user_exists :: "db \<Rightarrow> string \<Rightarrow> bool" where
  "user_exists d name = (fetchone [u \<leftarrow> users d. u_name u = name] \<noteq> None)"

text \<open>The column \<open>name\<close> is \<open>UNIQUE\<close>: inserting a name that is already stored raises
  \<open>sqlite3.IntegrityError\<close> and stores nothing.\<close>

definition create_user ::
  "(string \<Rightarrow> string) \<Rightarrow> db \<Rightarrow> string \<Rightarrow> string \<Rightarrow> string \<Rightarrow> py_error + (nat \<times> db)" where
  "create_user sha256_hex d name role pw =
     (if name \<in> set (map u_name (users d)) then Inl IntegrityError
      else
        (let uid = next_rowid (map u_id (users d)) in
         Inr (uid, d\<lparr>users := users d @
           [\<lparr>u_id = uid, u_name = name, u_role = role,
             u_password = hash_pw sha256_hex pw\<rparr>]\<rparr>)))"

definition validate_user ::
  "(string \<Rightarrow> string) \<Rightarrow> db \<Rightarrow> string \<Rightarrow> string \<Rightarrow> nat option \<times> string option" where
  "validate_user sha256_hex d name pw =
     (case fetchone [u \<leftarrow> users d. u_name u = name] of
        None \<Rightarrow> (None, None)
      | Some row \<Rightarrow>
          if u_password row = hash_pw sha256_hex pw then (Some (u_id row), Some (u_role row))
          else (None, None))"

definition is_upper :: "char \<Rightarrow> bool" where
  "is_upper c = (let n = (of_char c :: nat) in 65 \<le> n \<and> n \<le> 90)"

definition is_alpha :: "char \<Rightarrow> bool" where
  "is_alpha c = (let n = (of_char c :: nat) in (65 \<le> n \<and> n \<le> 90) \<or> (97 \<le> n \<and> n \<le> 122))"

text \<open>\<open>re.match(NAME_PATTERN, s)\<close> for
  \<^verbatim>\<open>^[A-Z][a-zA-Z]+ [A-Z]\. [A-Z][a-zA-Z]+$\<close>.
  A run \<open>[a-zA-Z]+\<close> is followed by a character that is no letter (a space, the end), so
  only the longest run of letters can match; \<open>$\<close> matches at the end of the string and
  before a newline that ends it.\<close>

definition name_pattern_match :: "string \<Rightarrow> bool" where
  "name_pattern_match s =
     (case s of
        [] \<Rightarrow> False
      | c # r0 \<Rightarrow>
          is_upper c \<and> takeWhile is_alpha r0 \<noteq> [] \<and>
          (case dropWhile is_alpha r0 of
             sp1 # ini # dot # sp2 # c2 # r2 \<Rightarrow>
               sp1 = CHR '' '' \<and> is_upper ini \<and> dot = CHR ''.'' \<and> sp2 = CHR '' '' \<and>
               is_upper c2 \<and> takeWhile is_alpha r2 \<noteq> [] \<and>
               (dropWhile is_alpha r2 = [] \<or> dropWhile is_alpha r2 = [nl])
           | _ \<Rightarrow> False))"

text \<open>The name format in the words of the specification, to compare the pattern with: a
  capitalized first name, a space, one capital initial and a period, a space, a
  capitalized last name. A name is a capital letter followed by one or more letters.\<close>

definition first_m_last :: "string \<Rightarrow> bool" where
  "first_m_last s =
     (\<exists>f fs m l ls.
        s = f # fs @ '' '' @ m # ''. '' @ l # ls \<and>
        is_upper f \<and> fs \<noteq> [] \<and> list_all is_alpha fs \<and> is_upper m \<and>
        is_upper l \<and> ls \<noteq> [] \<and> list_all is_alpha ls)"

text \<open>The sign-up form, once submitted (\<open>landing_ui\<close>).\<close>

definition signup ::
  "(string \<Rightarrow> string) \<Rightarrow> db \<Rightarrow> string \<Rightarrow> string \<Rightarrow> string \<Rightarrow> string \<Rightarrow>
   py_error + (db \<times> ui_msg list)" where
  "signup sha256_hex d name role pw pw2 =
     (if name = [] \<or> pw = [] then Inr (d, [Error ''Please fill name and password.''])
      else if \<not> name_pattern_match (strip name) then
        Inr (d, [Error ''Name must be like: Juan D. Cruz''])
      else if pw \<noteq> pw2 then Inr (d, [Error ''Passwords do not match.''])
      else if user_exists d (strip name) then
        Inr (d, [Error ''User already exists. Please log in.''])
      else
        (case create_user sha256_hex d (strip name) role pw of
           Inl e \<Rightarrow> Inl e
         | Inr (uid, d') \<Rightarrow>
             Inr (d', if uid \<noteq> 0
                      then [Success ''Account created. Please switch to 'Log in' to sign in.'']
                      else [])))"

text \<open>The keys of \<open>st.session_state\<close> the application sets.\<close>

record session =
  ss_user_id :: "nat option"
  ss_user_name :: "string option"
  ss_user_role :: "string option"
  ss_logged_in :: bool
  ss_page :: string

text \<open>The log-in form, once submitted.\<close>

definition login ::
  "(string \<Rightarrow> string) \<Rightarrow> db \<Rightarrow> session \<Rightarrow> string \<Rightarrow> string \<Rightarrow> session \<times> ui_msg list" where
  "login sha256_hex d ss name pw =
     (if name = [] \<or> pw = [] then (ss, [Error ''Enter name and password.''])
      else
        (case validate_user sha256_hex d (strip name) pw of
           (Some uid, role) \<Rightarrow>
             if uid \<noteq> 0 then
               (ss\<lparr>ss_user_id := Some uid, ss_user_name := Some (strip name),
                   ss_user_role := role, ss_logged_in := True, ss_page := ''app''\<rparr>,
                [Success ''Login successful.''])
             else (ss, [Error ''Invalid credentials or name format.''])
         | (None, role) \<Rightarrow> (ss, [Error ''Invalid credentials or name format.''])))"

subsection \<open>Classes and membership\<close>

text \<open>\<open>string.ascii_uppercase + string.digits\<close>\<close>

definition alphabet :: string where
  "alphabet = ''ABCDEFGHIJKLMNOPQRSTUVWXYZ0123456789''"

text \<open>\<open>random.choices(population, k=k)\<close> is
  \<open>[population[floor(random() * n)] for i in range(k)]\<close> with \<open>n = len(population)\<close>.
  The parameter \<open>rnd\<close> gives the index \<open>floor(random() * n)\<close> of the draw number \<open>i\<close>;
  \<open>random()\<close> lies in \<open>[0, 1)\<close>, so an index is below \<open>n\<close>.\<close>

definition random_choices :: "'a list \<Rightarrow> nat \<Rightarrow> (nat \<Rightarrow> nat) \<Rightarrow> 'a list" where
  "random_choices population k rnd = map (\<lambda>i. population ! rnd i) [0..<k]"

text \<open>The column \<open>code\<close> is \<open>UNIQUE\<close>: a code that is already stored makes the
  \<open>INSERT\<close> raise, and \<open>create_class\<close> does not catch it.\<close>

definition create_class ::
  "db \<Rightarrow> nat \<Rightarrow> string \<Rightarrow> (nat \<Rightarrow> nat) \<Rightarrow> string \<Rightarrow> py_error + (string \<times> db)" where
  "create_class d teacher_id name rnd now =
     (let code = random_choices alphabet 6 rnd in
      if code \<in> set (map c_code (classes d)) then Inl IntegrityError
      else
        Inr (code, d\<lparr>classes := classes d @
          [\<lparr>c_id = next_rowid (map c_id (classes d)), c_teacher_id = teacher_id,
            c_name = name, c_code = code, c_created_at = now\<rparr>]\<rparr>))"

definition join_class_by_code ::
  "db \<Rightarrow> nat \<Rightarrow> string \<Rightarrow> string \<Rightarrow> (bool \<times> string) \<times> db" where
  "join_class_by_code d student_id code now =
     (case fetchone [c \<leftarrow> classes d. c_code c = code] of
        None \<Rightarrow> ((False, ''Invalid class code.''), d)
      | Some row \<Rightarrow>
          (let class_id = c_id row in
           case fetchone [m \<leftarrow> class_members d.
                  m_class_id m = class_id \<and> m_student_id m = student_id] of
             Some _ \<Rightarrow> ((True, ''Already a member.''), d)
           | None \<Rightarrow>
               ((True, ''Joined successfully.''),
                d\<lparr>class_members := class_members d @
                  [\<lparr>m_id = next_rowid (map m_id (class_members d)), m_class_id = class_id,
                    m_student_id = student_id, m_joined_at = now\<rparr>]\<rparr>)))"

text \<open>The number of membership rows of one student in one class.\<close>

definition membership_count :: "db \<Rightarrow> nat \<Rightarrow> nat \<Rightarrow> nat" where
  "membership_count d class_id student_id =
     length [m \<leftarrow> class_members d. m_class_id m = class_id \<and> m_student_id m = student_id]"

text \<open>The join of \<open>users\<close> and \<open>class_members\<close> on the student id, for one class: the
  membership rows of the class, each with the user row of that id.\<close>

definition get_students_in_class :: "db \<Rightarrow> nat \<Rightarrow> (nat \<times> string) list" where
  "get_students_in_class d class_id =
     concat (map (\<lambda>m. map (\<lambda>u. (u_id u, u_name u)) [u \<leftarrow> users d. u_id u = m_student_id m])
       [m \<leftarrow> class_members d. m_class_id m = class_id])"

definition save_class_lesson ::
  "db \<Rightarrow> nat \<Rightarrow> nat \<Rightarrow> string \<Rightarrow> string \<Rightarrow> string \<Rightarrow> string \<Rightarrow> string \<Rightarrow> db" where
  "save_class_lesson d class_id student_id topic subject mi_type content now =
     d\<lparr>class_lessons := class_lessons d @
        [\<lparr>cl_id = next_rowid (map cl_id (class_lessons d)), cl_class_id = class_id,
          cl_student_id = student_id, cl_topic = topic, cl_subject = subject,
          cl_mi_type = mi_type, cl_content = content, cl_created_at = now\<rparr>]\<rparr>"

subsection \<open>Latest dominant intelligence\<close>

text \<open>\<open>SELECT dominant_mi FROM survey_results WHERE user_id=? ORDER BY id DESC LIMIT 1\<close>\<close>

definition get_latest_dominant_mi :: "db \<Rightarrow> nat \<Rightarrow> string option" where
  "get_latest_dominant_mi d user_id =
     map_option s_dominant_mi
       (fetchone (rev (sort_key s_id [s \<leftarrow> survey_results d. s_user_id s = user_id])))"

text \<open>\<open>get_latest_dominant_mi(sid) or "General"\<close>: \<open>None\<close> and the empty string are
  false.\<close>

definition dominant_or_general :: "db \<Rightarrow> nat \<Rightarrow> string" where
  "dominant_or_general d user_id =
     (case get_latest_dominant_mi d user_id of
        None \<Rightarrow> ''General''
      | Some mi \<Rightarrow> if mi = [] then ''General'' else mi)"

text \<open>The same in the words of the specification, to compare the lookup with: the
  dominant category of the survey row inserted last for the user, and "General" when the
  user has no survey row (or that category is the empty string).\<close>

definition latest_survey_or_general :: "db \<Rightarrow> nat \<Rightarrow> string" where
  "latest_survey_or_general d user_id =
     (case [s \<leftarrow> survey_results d. s_user_id s = user_id] of
        [] \<Rightarrow> ''General''
      | row # rows \<Rightarrow>
          if s_dominant_mi (last (row # rows)) = [] then ''General''
          else s_dominant_mi (last (row # rows)))"

subsection \<open>Tailoring\<close>

definition tailoring_prompt :: "string \<Rightarrow> string \<Rightarrow> string" where
  "tailoring_prompt text mi_type =
     ''Rewrite and structure this lesson content for a student with '' @ mi_type @
     '' intelligence. '' @
     ''Keep it concise, give 3-4 key points and 2 practice questions.'' @ [nl, nl] @
     ''Original content:'' @ [nl] @ text"

text \<open>\<open>openai.api_key\<close> is \<open>os.getenv("OPENAI_API_KEY", None)\<close>; \<open>not openai.api_key\<close>
  holds for \<open>None\<close> and for the empty string.\<close>

definition no_api_key :: "string option \<Rightarrow> bool" where
  "no_api_key api_key = (api_key = None \<or> api_key = Some [])"

text \<open>The body of the \<open>try\<close> block up to the message content is the parameter \<open>chat\<close>:
  \<open>Inr content\<close> when \<open>openai.ChatCompletion.create\<close> answers and the content is read from
  the answer, \<open>Inl e\<close> when an \<open>Exception\<close> with text \<open>e\<close> is raised on the way. The second
  component of the result is what \<open>st.error\<close> shows.\<close>

definition generate_tailored_lesson ::
  "string option \<Rightarrow> (string \<Rightarrow> string + string) \<Rightarrow> string \<Rightarrow> string \<Rightarrow> string \<times> ui_msg list" where
  "generate_tailored_lesson api_key chat text mi_type =
     (let prompt = tailoring_prompt text mi_type in
      if no_api_key api_key then
        (let fallback = ''[Tailored for '' @ mi_type @ ''] (No OpenAI key configured)'' @ [nl, nl];
             fallback = fallback @ ''Key points:'' @ [nl] @ ''- '' @
               (if text \<noteq> [] then replace_nl (take 200 text) else ''Main idea placeholder'') @
               [nl, nl] @ ''Practice:'' @ [nl] @ ''1) ...'' @ [nl] @ ''2) ...''
         in (fallback, []))
      else
        (case chat prompt of
           Inr content \<Rightarrow> (strip content, [])
         | Inl e \<Rightarrow>
             (''[Tailored for '' @ mi_type @ ''] (AI fallback)'' @ [nl, nl] @
                (if text \<noteq> [] then take 400 text else ''Content not available.''),
              [Error (''AI generation failed: '' @ e)])))"

subsection \<open>Assignment\<close>

text \<open>The loop over the students of the class, numbered from \<open>i\<close>. The call number \<open>i\<close>
  has its own model answer \<open>chat i\<close> and its own clock reading \<open>clock i\<close>. The progress
  bar is given the fraction \<open>i / n\<close>, \<open>n\<close> the number of students (\<open>total\<close>).\<close>

fun assign_loop ::
  "string option \<Rightarrow> (nat \<Rightarrow> string \<Rightarrow> string + string) \<Rightarrow> (nat \<Rightarrow> string) \<Rightarrow>
   nat \<Rightarrow> string \<Rightarrow> string \<Rightarrow> string \<Rightarrow> nat \<Rightarrow> nat \<Rightarrow> (nat \<times> string) list \<Rightarrow>
   db \<times> ui_msg list \<Rightarrow> db \<times> ui_msg list" where
  "assign_loop api_key chat clock class_id topic subject text n i [] acc = acc"
| "assign_loop api_key chat clock class_id topic subject text n i ((sid, sname) # rest)
     (d, msgs) =
     (let dominant = dominant_or_general d sid;
          (tailored, notes) = generate_tailored_lesson api_key (chat i) text dominant;
          d' = save_class_lesson d class_id sid
                 (if topic = [] then ''Uploaded Lesson'' else topic)
                 (if subject = [] then ''General'' else subject) dominant tailored (clock i)
      in assign_loop api_key chat clock class_id topic subject text n (Suc i) rest
           (d', msgs @ notes @ [Progress i n]))"

text \<open>The "Assign to class" button. \<open>uploaded\<close> is \<open>None\<close> without a file; with a file it
  is the outcome of reading it: \<open>Inr text\<close>, or \<open>Inl e\<close> when the reader raised.\<close>

definition assign_to_class ::
  "string option \<Rightarrow> (nat \<Rightarrow> string \<Rightarrow> string + string) \<Rightarrow> (nat \<Rightarrow> string) \<Rightarrow>
   db \<Rightarrow> nat \<Rightarrow> string \<Rightarrow> string \<Rightarrow> (string + string) option \<Rightarrow> db \<times> ui_msg list" where
  "assign_to_class api_key chat clock d class_id topic subject uploaded =
     (case uploaded of
        None \<Rightarrow> (d, [Error ''Upload a file to assign.''])
      | Some extracted \<Rightarrow>
          (let (text, msgs) =
                 (case extracted of
                    Inr t \<Rightarrow> (t, [])
                  | Inl e \<Rightarrow> ([], [Error (''Could not read file: '' @ e)]))
           in
             if strip text = [] then
               (d, msgs @ [Error ''No extractable text found in the uploaded file.''])
             else
               (let students = get_students_in_class d class_id in
                if students = [] then
                  (d, msgs @ [Info ''No students in this class to assign to.''])
                else
                  (let (d', shown) =
                         assign_loop api_key chat clock class_id topic subject text
                           (length students) 1 students (d, [])
                   in (d', msgs @ shown @
                         [Success ''Assigned tailored lessons to all students in class.''])))))"

subsection \<open>The states of the store\<close>

text \<open>Every state the application can bring the store into from an empty database file:
  the helpers that insert are the only writers, and no row is ever changed or deleted.\<close>

inductive reachable :: "db \<Rightarrow> bool" where
  start: "reachable init_db"
| user: "reachable d \<Longrightarrow> create_user sha256_hex d name role pw = Inr (uid, d') \<Longrightarrow> reachable d'"
| survey: "reachable d \<Longrightarrow> reachable (save_survey d user_id mi_scores dominant now)"
| new_class: "reachable d \<Longrightarrow> \<forall>i < 6. rnd i < length alphabet \<Longrightarrow>
    create_class d teacher_id name rnd now = Inr (code, d') \<Longrightarrow> reachable d'"
| member: "reachable d \<Longrightarrow> join_class_by_code d student_id code now = (res, d') \<Longrightarrow>
    reachable d'"
| class_lesson: "reachable d \<Longrightarrow>
    reachable (save_class_lesson d class_id student_id topic subject mi_type content now)"

text \<open>What holds in every such state: survey ids grow with the insertion order, user ids
  are distinct, join codes are distinct, six characters long and drawn from the
  alphabet, and no student has two membership rows in one class.\<close>

definition store_inv :: "db \<Rightarrow> bool" where
  "store_inv d =
     (sorted_wrt (<) (map s_id (survey_results d)) \<and>
      distinct (map u_id (users d)) \<and>
      distinct (map c_code (classes d)) \<and>
      list_all (\<lambda>c. length (c_code c) = 6 \<and> set (c_code c) \<subseteq> set alphabet) (classes d) \<and>
      distinct (map (\<lambda>m. (m_class_id m, m_student_id m)) (class_members d)))"

section \<open>Survey scorer: sums and the first maximum\<close>

lemma update_fresh: "k \<notin> fst ` set al \<Longrightarrow> AList.update k v al = al @ [(k, v)]"
  by (induction al) auto

lemma fold_update_fresh:
  "distinct (map fst xs) \<Longrightarrow> fst ` set xs \<inter> fst ` set acc = {} \<Longrightarrow>
   fold (\<lambda>(k, vs) acc. AList.update k (f vs) acc) xs acc = acc @ map (\<lambda>(k, vs). (k, f vs)) xs"
proof (induction xs arbitrary: acc)
  case Nil
  then show ?case by simp
next
  case (Cons x xs)
  obtain k vs where x: "x = (k, vs)" by (cases x)
  from Cons.prems have fresh: "k \<notin> fst ` set acc" by (auto simp: x)
  have step: "AList.update k (f vs) acc = acc @ [(k, f vs)]"
    using fresh by (rule update_fresh)
  have d: "distinct (map fst xs)" using Cons.prems by simp
  have disj: "fst ` set xs \<inter> fst ` set (acc @ [(k, f vs)]) = {}"
    using Cons.prems by (auto simp: x)
  show ?case
    using Cons.IH [OF d disj] by (simp add: x step)
qed

lemma sum_scores_distinct:
  "distinct (map fst responses) \<Longrightarrow>
   sum_scores responses = map (\<lambda>(mi, vals). (mi, sum_list vals)) responses"
  unfolding sum_scores_def using fold_update_fresh [of responses "[]" sum_list] by simp

lemma max_loop_first_max:
  assumes "\<forall>x \<in> set xs. key x = Some (f x)"
  shows "\<exists>r. max_loop key m (f m) xs = Inr r \<and>
     ((r = m \<and> (\<forall>x \<in> set xs. f x \<le> f m)) \<or>
      (\<exists>pre post. xs = pre @ r # post \<and> f m < f r \<and>
         (\<forall>x \<in> set pre. f x < f r) \<and> (\<forall>x \<in> set post. f x \<le> f r)))"
  using assms
proof (induction xs arbitrary: m)
  case Nil
  then show ?case by simp
next
  case (Cons x xs)
  have kx: "key x = Some (f x)" using Cons.prems by simp
  have rest: "\<forall>y \<in> set xs. key y = Some (f y)" using Cons.prems by simp
  show ?case
  proof (cases "f x > f m")
    case True
    from Cons.IH [OF rest, of x] obtain r where
      r: "max_loop key x (f x) xs = Inr r"
      and c: "(r = x \<and> (\<forall>y \<in> set xs. f y \<le> f x)) \<or>
        (\<exists>pre post. xs = pre @ r # post \<and> f x < f r \<and>
           (\<forall>y \<in> set pre. f y < f r) \<and> (\<forall>y \<in> set post. f y \<le> f r))" by blast
    have run: "max_loop key m (f m) (x # xs) = Inr r" using True kx r by simp
    from c show ?thesis
    proof
      assume a: "r = x \<and> (\<forall>y \<in> set xs. f y \<le> f x)"
      then have "x # xs = [] @ r # xs \<and> f m < f r \<and> (\<forall>y \<in> set []. f y < f r) \<and>
        (\<forall>y \<in> set xs. f y \<le> f r)" using True by simp
      then show ?thesis using run by blast
    next
      assume "\<exists>pre post. xs = pre @ r # post \<and> f x < f r \<and>
           (\<forall>y \<in> set pre. f y < f r) \<and> (\<forall>y \<in> set post. f y \<le> f r)"
      then obtain pre post where p: "xs = pre @ r # post" "f x < f r"
        "\<forall>y \<in> set pre. f y < f r" "\<forall>y \<in> set post. f y \<le> f r" by blast
      then have "x # xs = (x # pre) @ r # post \<and> f m < f r \<and>
        (\<forall>y \<in> set (x # pre). f y < f r) \<and> (\<forall>y \<in> set post. f y \<le> f r)"
        using True by auto
      then show ?thesis using run by blast
    qed
  next
    case False
    from Cons.IH [OF rest, of m] obtain r where
      r: "max_loop key m (f m) xs = Inr r"
      and c: "(r = m \<and> (\<forall>y \<in> set xs. f y \<le> f m)) \<or>
        (\<exists>pre post. xs = pre @ r # post \<and> f m < f r \<and>
           (\<forall>y \<in> set pre. f y < f r) \<and> (\<forall>y \<in> set post. f y \<le> f r))" by blast
    have run: "max_loop key m (f m) (x # xs) = Inr r" using False kx r by simp
    from c show ?thesis
    proof
      assume "r = m \<and> (\<forall>y \<in> set xs. f y \<le> f m)"
      then show ?thesis using run False by auto
    next
      assume "\<exists>pre post. xs = pre @ r # post \<and> f m < f r \<and>
           (\<forall>y \<in> set pre. f y < f r) \<and> (\<forall>y \<in> set post. f y \<le> f r)"
      then obtain pre post where p: "xs = pre @ r # post" "f m < f r"
        "\<forall>y \<in> set pre. f y < f r" "\<forall>y \<in> set post. f y \<le> f r" by blast
      then have "x # xs = (x # pre) @ r # post \<and> f m < f r \<and>
        (\<forall>y \<in> set (x # pre). f y < f r) \<and> (\<forall>y \<in> set post. f y \<le> f r)"
        using False by auto
      then show ?thesis using run by blast
    qed
  qed
qed

lemma py_max_first_max:
  assumes "items \<noteq> []" and "\<forall>x \<in> set items. key x = Some (f x)"
  shows "\<exists>r pre post. py_max key items = Inr r \<and> items = pre @ r # post \<and>
     (\<forall>x \<in> set pre. f x < f r) \<and> (\<forall>x \<in> set post. f x \<le> f r)"
proof -
  obtain m xs where items: "items = m # xs" using assms(1) by (cases items) auto
  have km: "key m = Some (f m)" using assms(2) items by simp
  have rest: "\<forall>x \<in> set xs. key x = Some (f x)" using assms(2) items by simp
  from max_loop_first_max [OF rest, of m] obtain r where
    r: "max_loop key m (f m) xs = Inr r"
    and c: "(r = m \<and> (\<forall>x \<in> set xs. f x \<le> f m)) \<or>
      (\<exists>pre post. xs = pre @ r # post \<and> f m < f r \<and>
         (\<forall>x \<in> set pre. f x < f r) \<and> (\<forall>x \<in> set post. f x \<le> f r))" by blast
  have run: "py_max key items = Inr r" using items km r by (simp add: py_max_def)
  from c show ?thesis
  proof
    assume "r = m \<and> (\<forall>x \<in> set xs. f x \<le> f m)"
    then have "items = [] @ r # xs \<and> (\<forall>x \<in> set []. f x < f r) \<and> (\<forall>x \<in> set xs. f x \<le> f r)"
      using items by simp
    then show ?thesis using run by blast
  next
    assume "\<exists>pre post. xs = pre @ r # post \<and> f m < f r \<and>
         (\<forall>x \<in> set pre. f x < f r) \<and> (\<forall>x \<in> set post. f x \<le> f r)"
    then obtain pre post where p: "xs = pre @ r # post" "f m < f r"
      "\<forall>x \<in> set pre. f x < f r" "\<forall>x \<in> set post. f x \<le> f r" by blast
    then have "items = (m # pre) @ r # post \<and> (\<forall>x \<in> set (m # pre). f x < f r) \<and>
      (\<forall>x \<in> set post. f x \<le> f r)" using items by auto
    then show ?thesis using run by blast
  qed
qed

lemma valid_keys: "valid_submission responses \<Longrightarrow> distinct (map fst responses) \<and> responses \<noteq> []"
  by (auto simp: valid_submission_def categories_def)

lemma survey_core:
  assumes dist: "distinct (map fst responses)" and ne: "responses \<noteq> []"
  shows "\<exists>dominant vals pre post.
     py_max (map_of (sum_scores responses)) (map fst (sum_scores responses)) = Inr dominant \<and>
     responses = pre @ (dominant, vals) # post \<and>
     (\<forall>(mi, vs) \<in> set pre. sum_list vs < sum_list vals) \<and>
     (\<forall>(mi, vs) \<in> set post. sum_list vs \<le> sum_list vals)"
proof -
  let ?sc = "map (\<lambda>(mi, vals). (mi, sum_list vals)) responses"
  let ?f = "\<lambda>k. the (map_of ?sc k)"
  have sc: "sum_scores responses = ?sc" using dist by (rule sum_scores_distinct)
  have keys: "map fst ?sc = map fst responses"
    by (simp add: comp_def case_prod_beta)
  have dsc: "distinct (map fst ?sc)" using dist by (simp add: comp_def case_prod_beta)
  have look: "map_of ?sc mi = Some (sum_list vs)" if "(mi, vs) \<in> set responses" for mi vs
  proof -
    have "(mi, sum_list vs) \<in> set ?sc" using that by force
    with dsc show ?thesis by (rule map_of_is_SomeI)
  qed
  have all: "\<forall>k \<in> set (map fst responses). map_of ?sc k = Some (?f k)"
    using look by fastforce
  have ne': "map fst responses \<noteq> []" using ne by simp
  from py_max_first_max [OF ne' all] obtain r kpre kpost where
    run: "py_max (map_of ?sc) (map fst responses) = Inr r"
    and split: "map fst responses = kpre @ r # kpost"
    and before: "\<forall>k \<in> set kpre. ?f k < ?f r"
    and after: "\<forall>k \<in> set kpost. ?f k \<le> ?f r" by blast
  from split obtain pre x post where
    resp: "responses = pre @ x # post" and kp: "map fst pre = kpre"
    and fx: "fst x = r" and kq: "map fst post = kpost"
    by (auto simp: map_eq_append_conv map_eq_Cons_conv)
  obtain vals where x: "x = (r, vals)" using fx by (cases x) auto
  have fr: "?f r = sum_list vals" using look [of r vals] resp x by simp
  have b: "\<forall>(mi, vs) \<in> set pre. sum_list vs < sum_list vals"
  proof clarify
    fix mi vs assume m: "(mi, vs) \<in> set pre"
    then have "mi \<in> set kpre" using kp by force
    moreover have "?f mi = sum_list vs" using look [of mi vs] m resp by simp
    ultimately show "sum_list vs < sum_list vals" using before fr by force
  qed
  have a: "\<forall>(mi, vs) \<in> set post. sum_list vs \<le> sum_list vals"
  proof clarify
    fix mi vs assume m: "(mi, vs) \<in> set post"
    then have "mi \<in> set kpost" using kq by force
    moreover have "?f mi = sum_list vs" using look [of mi vs] m resp by simp
    ultimately show "sum_list vs \<le> sum_list vals" using after fr by force
  qed
  have run': "py_max (map_of (sum_scores responses)) (map fst (sum_scores responses)) = Inr r"
    using run by (simp only: sc keys)
  have resp': "responses = pre @ (r, vals) # post" using resp x by simp
  show ?thesis using run' resp' a b by blast
qed

text \<open>
  Claim C1. For a valid submission the score of each category is the sum of its five
  ratings, and the dominant category, which is returned, shown and stored in the new
  survey row, has the greatest sum: every category listed before it has a strictly
  smaller sum and every category listed after it has a sum that is no greater, so among
  equal sums the category listed first wins.
\<close>

theorem dominant_is_first_maximum:
  assumes "valid_submission responses"
  shows "\<exists>dominant vals pre post.
     submit_survey d user_id responses now =
       Inr (save_survey d user_id (sum_scores responses) dominant now, dominant,
            sum_scores responses,
            [Success (''Survey saved. Dominant intelligence: '' @ dominant)]) \<and>
     sum_scores responses = map (\<lambda>(mi, vals). (mi, sum_list vals)) responses \<and>
     responses = pre @ (dominant, vals) # post \<and>
     (\<forall>(mi, vs) \<in> set pre. sum_list vs < sum_list vals) \<and>
     (\<forall>(mi, vs) \<in> set post. sum_list vs \<le> sum_list vals) \<and>
     s_dominant_mi (last (survey_results
       (save_survey d user_id (sum_scores responses) dominant now))) = dominant"
proof -
  have dist: "distinct (map fst responses)" and ne: "responses \<noteq> []"
    using valid_keys [OF assms] by simp_all
  from survey_core [OF dist ne] obtain dominant vals pre post where
    run: "py_max (map_of (sum_scores responses)) (map fst (sum_scores responses)) = Inr dominant"
    and rest: "responses = pre @ (dominant, vals) # post"
      "\<forall>(mi, vs) \<in> set pre. sum_list vs < sum_list vals"
      "\<forall>(mi, vs) \<in> set post. sum_list vs \<le> sum_list vals" by blast
  have sub: "submit_survey d user_id responses now =
       Inr (save_survey d user_id (sum_scores responses) dominant now, dominant,
            sum_scores responses,
            [Success (''Survey saved. Dominant intelligence: '' @ dominant)])"
    using run by (simp add: submit_survey_def Let_def)
  have saved: "s_dominant_mi (last (survey_results
       (save_survey d user_id (sum_scores responses) dominant now))) = dominant"
    by (simp add: save_survey_def)
  show ?thesis using sub rest saved sum_scores_distinct [OF dist] by blast
qed

theorem dominant_is_first_maximum_witness:
  "valid_submission
     [(''Linguistic'', [3, 3, 3, 3, 3]), (''Logical-Mathematical'', [5, 4, 4, 4, 4]),
      (''Visual-Spatial'', [1, 1, 1, 1, 1]), (''Bodily-Kinesthetic'', [4, 4, 4, 4, 5]),
      (''Musical'', [2, 2, 2, 2, 2]), (''Interpersonal'', [5, 5, 5, 5, 1]),
      (''Intrapersonal'', [3, 3, 3, 3, 3])] \<and>
   (\<exists>d'. submit_survey init_db 1
     [(''Linguistic'', [3, 3, 3, 3, 3]), (''Logical-Mathematical'', [5, 4, 4, 4, 4]),
      (''Visual-Spatial'', [1, 1, 1, 1, 1]), (''Bodily-Kinesthetic'', [4, 4, 4, 4, 5]),
      (''Musical'', [2, 2, 2, 2, 2]), (''Interpersonal'', [5, 5, 5, 5, 1]),
      (''Intrapersonal'', [3, 3, 3, 3, 3])] ''2026-11-04T09:00:00'' =
     Inr (d', ''Logical-Mathematical'',
       [(''Linguistic'', 15), (''Logical-Mathematical'', 21), (''Visual-Spatial'', 5),
        (''Bodily-Kinesthetic'', 21), (''Musical'', 10), (''Interpersonal'', 21),
        (''Intrapersonal'', 15)],
       [Success ''Survey saved. Dominant intelligence: Logical-Mathematical'']))"
proof -
  let ?r = "[(''Linguistic'', [3, 3, 3, 3, 3]), (''Logical-Mathematical'', [5, 4, 4, 4, 4]),
      (''Visual-Spatial'', [1, 1, 1, 1, 1]), (''Bodily-Kinesthetic'', [4, 4, 4, 4, 5]),
      (''Musical'', [2, 2, 2, 2, 2]), (''Interpersonal'', [5, 5, 5, 5, 1]),
      (''Intrapersonal'', [3, 3, 3, 3, 3])] :: (string \<times> int list) list"
  have v: "valid_submission ?r"
    by (simp add: valid_submission_def categories_def)
  have sums: "sum_scores ?r =
       [(''Linguistic'', 15), (''Logical-Mathematical'', 21), (''Visual-Spatial'', 5),
        (''Bodily-Kinesthetic'', 21), (''Musical'', 10), (''Interpersonal'', 21),
        (''Intrapersonal'', 15)]"
    by (simp add: sum_scores_def)
  from dominant_is_first_maximum [OF v, of init_db 1 "''2026-11-04T09:00:00''"]
  obtain dominant where
    run: "submit_survey init_db 1 ?r ''2026-11-04T09:00:00'' =
       Inr (save_survey init_db 1 (sum_scores ?r) dominant ''2026-11-04T09:00:00'', dominant,
            sum_scores ?r, [Success (''Survey saved. Dominant intelligence: '' @ dominant)])"
    by blast
  have "py_max (map_of (sum_scores ?r)) (map fst (sum_scores ?r)) = Inr ''Logical-Mathematical''"
    unfolding sums by (simp add: py_max_def)
  then have "dominant = ''Logical-Mathematical''"
    using run by (simp add: submit_survey_def Let_def)
  then show ?thesis using v run sums by simp
qed

section \<open>Tailoring: the fallbacks\<close>

lemma replace_nl_length: "length (replace_nl s) = length s"
  by (simp add: replace_nl_def)

lemma replace_nl_no_newline: "nl \<notin> set (replace_nl s)"
  by (auto simp: replace_nl_def nl_def)

lemma replace_nl_nth:
  "i < length s \<Longrightarrow> replace_nl s ! i = (if s ! i = nl then CHR '' '' else s ! i)"
  by (simp add: replace_nl_def)

text \<open>
  Without an API key and with the empty source text the part after "Key points" is not
  the (empty) first 200 characters of the text.
\<close>

theorem no_key_fallback_counterexample:
  "no_api_key None \<and>
   fst (generate_tailored_lesson None (\<lambda>prompt. Inr prompt) [] ''Musical'') \<noteq>
     ''[Tailored for '' @ ''Musical'' @ ''] (No OpenAI key configured)'' @ [nl, nl] @
     ''Key points:'' @ [nl] @ ''- '' @ replace_nl (take 200 []) @ [nl, nl] @
     ''Practice:'' @ [nl] @ ''1) ...'' @ [nl] @ ''2) ...''"
  by (simp add: generate_tailored_lesson_def no_api_key_def replace_nl_def)

text \<open>
  Claim C5, amended. Without an API key, for every non-empty source text and every
  intelligence type the output is the header naming the type, then "Key points" with
  the excerpt, then the two practice stubs; the excerpt is the first 200 characters of
  the text with every newline replaced by a space. For every source text, the empty one
  included, the output does not depend on the answer of the hosted model, so equal
  inputs give equal outputs.
\<close>

theorem no_key_fallback:
  assumes "no_api_key api_key"
  shows "(text \<noteq> [] \<longrightarrow>
      (\<exists>excerpt.
        generate_tailored_lesson api_key chat text mi_type =
          (''[Tailored for '' @ mi_type @ ''] (No OpenAI key configured)'' @ [nl, nl] @
           ''Key points:'' @ [nl] @ ''- '' @ excerpt @ [nl, nl] @
           ''Practice:'' @ [nl] @ ''1) ...'' @ [nl] @ ''2) ...'', []) \<and>
        excerpt = replace_nl (take 200 text) \<and>
        length excerpt = min 200 (length text) \<and>
        nl \<notin> set excerpt \<and>
        (\<forall>i < length excerpt.
           excerpt ! i = (if text ! i = nl then CHR '' '' else text ! i)))) \<and>
    generate_tailored_lesson api_key chat text mi_type =
      generate_tailored_lesson api_key chat' text mi_type"
proof -
  have out: "generate_tailored_lesson api_key chat text mi_type =
        (''[Tailored for '' @ mi_type @ ''] (No OpenAI key configured)'' @ [nl, nl] @
         ''Key points:'' @ [nl] @ ''- '' @ replace_nl (take 200 text) @ [nl, nl] @
         ''Practice:'' @ [nl] @ ''1) ...'' @ [nl] @ ''2) ...'', [])" if "text \<noteq> []"
    using assms that by (simp add: generate_tailored_lesson_def Let_def)
  have same: "generate_tailored_lesson api_key chat text mi_type =
      generate_tailored_lesson api_key chat' text mi_type"
    using assms by (simp add: generate_tailored_lesson_def Let_def)
  have len: "length (replace_nl (take 200 text)) = min 200 (length text)"
    by (simp add: replace_nl_length min.commute)
  have nth: "\<forall>i < length (replace_nl (take 200 text)).
      replace_nl (take 200 text) ! i = (if text ! i = nl then CHR '' '' else text ! i)"
    by (simp add: replace_nl_length replace_nl_nth)
  show ?thesis
    using out same len nth replace_nl_no_newline [of "take 200 text"] by simp
qed

theorem no_key_fallback_witness:
  "no_api_key None \<and>
   replicate 199 (CHR ''a'') @ [nl] @ replicate 50 (CHR ''b'') \<noteq> [] \<and>
   fst (generate_tailored_lesson None (\<lambda>prompt. Inr prompt)
     (replicate 199 (CHR ''a'') @ [nl] @ replicate 50 (CHR ''b'')) ''Musical'') =
     ''[Tailored for Musical] (No OpenAI key configured)'' @ [nl, nl] @
     ''Key points:'' @ [nl] @ ''- '' @ replicate 199 (CHR ''a'') @ '' '' @ [nl, nl] @
     ''Practice:'' @ [nl] @ ''1) ...'' @ [nl] @ ''2) ...'' \<and>
   generate_tailored_lesson None (\<lambda>prompt. Inr prompt) [] ''Musical'' =
     generate_tailored_lesson None (\<lambda>prompt. Inl ''Rate limit reached'') [] ''Musical''"
proof -
  let ?text = "replicate 199 (CHR ''a'') @ [nl] @ replicate 50 (CHR ''b'')"
  have k: "no_api_key None" by (simp add: no_api_key_def)
  have t: "?text \<noteq> []" by simp
  have cut: "take 200 ?text = replicate 199 (CHR ''a'') @ [nl]" by simp
  have flat: "replace_nl (replicate 199 (CHR ''a'') @ [nl]) = replicate 199 (CHR ''a'') @ '' ''"
    by (simp add: replace_nl_def nl_def)
  from no_key_fallback [OF k, of ?text "\<lambda>prompt. Inr prompt" "''Musical''",
      THEN conjunct1, rule_format, OF t]
  obtain excerpt where
    run: "generate_tailored_lesson None (\<lambda>prompt. Inr prompt) ?text ''Musical'' =
          (''[Tailored for '' @ ''Musical'' @ ''] (No OpenAI key configured)'' @ [nl, nl] @
           ''Key points:'' @ [nl] @ ''- '' @ excerpt @ [nl, nl] @
           ''Practice:'' @ [nl] @ ''1) ...'' @ [nl] @ ''2) ...'', [])"
    and ex: "excerpt = replace_nl (take 200 ?text)"
    by blast
  have ex': "excerpt = replicate 199 (CHR ''a'') @ '' ''"
    unfolding ex cut by (rule flat)
  have one: "fst (generate_tailored_lesson None (\<lambda>prompt. Inr prompt) ?text ''Musical'') =
     ''[Tailored for Musical] (No OpenAI key configured)'' @ [nl, nl] @
     ''Key points:'' @ [nl] @ ''- '' @ replicate 199 (CHR ''a'') @ '' '' @ [nl, nl] @
     ''Practice:'' @ [nl] @ ''1) ...'' @ [nl] @ ''2) ...''"
    unfolding run ex' by simp
  have two: "generate_tailored_lesson None (\<lambda>prompt. Inr prompt) [] ''Musical'' =
     generate_tailored_lesson None (\<lambda>prompt. Inl ''Rate limit reached'') [] ''Musical''"
    using no_key_fallback [OF k, of "[]" "\<lambda>prompt. Inr prompt" "''Musical''"
        "\<lambda>prompt. Inl ''Rate limit reached''"]
    by (rule conjunct2)
  show ?thesis using k t one two by (intro conjI)
qed

text \<open>
  Claim C10. Without an API key and with the empty source text, the excerpt part of the
  fallback is the literal text "Main idea placeholder".
\<close>

theorem empty_text_placeholder:
  assumes "no_api_key api_key"
  shows "generate_tailored_lesson api_key chat [] mi_type =
     (''[Tailored for '' @ mi_type @ ''] (No OpenAI key configured)'' @ [nl, nl] @
      ''Key points:'' @ [nl] @ ''- '' @ ''Main idea placeholder'' @ [nl, nl] @
      ''Practice:'' @ [nl] @ ''1) ...'' @ [nl] @ ''2) ...'', [])"
  using assms by (simp add: generate_tailored_lesson_def Let_def)

theorem empty_text_placeholder_witness:
  "no_api_key (Some []) \<and>
   generate_tailored_lesson (Some []) (\<lambda>prompt. Inr prompt) [] ''General'' =
     (''[Tailored for General] (No OpenAI key configured)'' @ [nl, nl] @
      ''Key points:'' @ [nl] @ ''- Main idea placeholder'' @ [nl, nl] @
      ''Practice:'' @ [nl] @ ''1) ...'' @ [nl] @ ''2) ...'', [])"
proof -
  have k: "no_api_key (Some [])" by (simp add: no_api_key_def)
  show ?thesis
    using k empty_text_placeholder [OF k, of "\<lambda>prompt. Inr prompt" "''General''"] by simp
qed

text \<open>
  With an API key, a failing call and the empty source text, the header is not followed
  by the (empty) first 400 characters of the text but by a fixed sentence.
\<close>

theorem failed_call_fallback_counterexample:
  "\<not> no_api_key (Some ''sk-test'') \<and>
   fst (generate_tailored_lesson (Some ''sk-test'') (\<lambda>prompt. Inl ''Rate limit reached'') []
     ''Musical'') =
     ''[Tailored for Musical] (AI fallback)'' @ [nl, nl] @ ''Content not available.'' \<and>
   fst (generate_tailored_lesson (Some ''sk-test'') (\<lambda>prompt. Inl ''Rate limit reached'') []
     ''Musical'') \<noteq>
     ''[Tailored for '' @ ''Musical'' @ ''] (AI fallback)'' @ [nl, nl] @ take 400 []"
  by (simp add: generate_tailored_lesson_def no_api_key_def)

text \<open>
  Claim C6, amended. Tailoring returns a string on every path. With an API key and a
  call to the hosted model that raises, it shows the failure as a notice and returns
  the header naming the intelligence type followed by the first 400 characters of the
  source text when the text is not empty, and by "Content not available." when it is.
\<close>

theorem failed_call_fallback:
  assumes "\<not> no_api_key api_key" and "chat (tailoring_prompt text mi_type) = Inl e"
  shows "generate_tailored_lesson api_key chat text mi_type =
     (''[Tailored for '' @ mi_type @ ''] (AI fallback)'' @ [nl, nl] @
        (if text = [] then ''Content not available.'' else take 400 text),
      [Error (''AI generation failed: '' @ e)])"
  using assms by (simp add: generate_tailored_lesson_def Let_def)

theorem failed_call_fallback_witness:
  "\<not> no_api_key (Some ''sk-test'') \<and>
   generate_tailored_lesson (Some ''sk-test'') (\<lambda>prompt. Inl ''Rate limit reached'')
     ''Fractions are parts of a whole.'' ''Musical'' =
     (''[Tailored for Musical] (AI fallback)'' @ [nl, nl] @ ''Fractions are parts of a whole.'',
      [Error ''AI generation failed: Rate limit reached''])"
proof -
  have k: "\<not> no_api_key (Some ''sk-test'')" by (simp add: no_api_key_def)
  have c: "(\<lambda>prompt. Inl ''Rate limit reached'' :: string + string)
      (tailoring_prompt ''Fractions are parts of a whole.'' ''Musical'') =
      Inl ''Rate limit reached''" by simp
  show ?thesis
    using k failed_call_fallback [OF k c] by simp
qed

section \<open>Accounts: sign-up and log-in\<close>

lemma fetchone_None: "fetchone rows = None \<longleftrightarrow> rows = []"
  by (cases rows) (simp_all add: fetchone_def)

lemma fetchone_Cons: "fetchone (r # rows) = Some r"
  by (simp add: fetchone_def)

lemma user_exists_iff: "user_exists d name \<longleftrightarrow> name \<in> set (map u_name (users d))"
  by (auto simp: user_exists_def fetchone_None filter_empty_conv)

lemma next_rowid_pos: "next_rowid ids \<noteq> 0"
  by (simp add: next_rowid_def)

lemma create_user_Inr:
  "create_user sha256_hex d name role pw = Inr (uid, d') \<longleftrightarrow>
     name \<notin> set (map u_name (users d)) \<and> uid = next_rowid (map u_id (users d)) \<and>
     d' = d\<lparr>users := users d @
       [\<lparr>u_id = uid, u_name = name, u_role = role, u_password = sha256_hex pw\<rparr>]\<rparr>"
  by (auto simp: create_user_def hash_pw_def Let_def)

lemma signup_rejected:
  assumes "\<not> (name \<noteq> [] \<and> pw \<noteq> [] \<and> name_pattern_match (strip name) \<and> pw = pw2 \<and>
      strip name \<notin> set (map u_name (users d)))"
  shows "\<exists>msg. signup sha256_hex d name role pw pw2 = Inr (d, [Error msg])"
proof -
  consider "name = [] \<or> pw = []"
    | "name \<noteq> []" "pw \<noteq> []" "\<not> name_pattern_match (strip name)"
    | "name \<noteq> []" "pw \<noteq> []" "name_pattern_match (strip name)" "pw \<noteq> pw2"
    | "name \<noteq> []" "pw \<noteq> []" "name_pattern_match (strip name)" "pw = pw2"
      "user_exists d (strip name)"
    using assms user_exists_iff by blast
  then show ?thesis
  proof cases
    case 1
    then show ?thesis unfolding signup_def by auto
  next
    case 2
    then show ?thesis unfolding signup_def by simp
  next
    case 3
    then show ?thesis unfolding signup_def by simp
  next
    case 4
    then show ?thesis unfolding signup_def by simp
  qed
qed

lemma signup_accepted:
  assumes "name \<noteq> []" "pw \<noteq> []" "name_pattern_match (strip name)" "pw = pw2"
    "strip name \<notin> set (map u_name (users d))"
  shows "signup sha256_hex d name role pw pw2 =
      Inr (d\<lparr>users := users d @
             [\<lparr>u_id = next_rowid (map u_id (users d)), u_name = strip name, u_role = role,
               u_password = sha256_hex pw\<rparr>]\<rparr>,
           [Success ''Account created. Please switch to 'Log in' to sign in.''])"
proof -
  have c: "create_user sha256_hex d (strip name) role pw =
      Inr (next_rowid (map u_id (users d)), d\<lparr>users := users d @
             [\<lparr>u_id = next_rowid (map u_id (users d)), u_name = strip name, u_role = role,
               u_password = sha256_hex pw\<rparr>]\<rparr>)"
    using assms(5) by (simp add: create_user_Inr)
  have e: "\<not> user_exists d (strip name)" using assms(5) by (simp add: user_exists_iff)
  show ?thesis
    unfolding signup_def using assms(1-3) e
    by (simp add: c next_rowid_pos assms(4) [symmetric])
qed

lemma span_letters:
  assumes "list_all P xs" and "\<not> P c"
  shows "takeWhile P (xs @ c # r) = xs" and "dropWhile P (xs @ c # r) = c # r"
proof -
  have all: "\<And>x. x \<in> set xs \<Longrightarrow> P x" using assms(1) by (simp add: list_all_iff)
  show "takeWhile P (xs @ c # r) = xs"
    using all assms(2) by (simp add: takeWhile_append2)
  show "dropWhile P (xs @ c # r) = c # r"
    using all assms(2) by (simp add: dropWhile_append2)
qed

lemma span_all:
  assumes "list_all P xs"
  shows "takeWhile P xs = xs" and "dropWhile P xs = []"
  using assms by (simp_all add: list_all_iff)

lemma not_alpha_space: "\<not> is_alpha (CHR '' '')"
  by (simp add: is_alpha_def)

lemma not_alpha_nl: "\<not> is_alpha nl"
  by (simp add: is_alpha_def nl_def)

lemma first_m_last_match:
  assumes "first_m_last s"
  shows "name_pattern_match s" and "name_pattern_match (s @ [nl])"
proof -
  from assms obtain f fs m l ls where
    s: "s = f # fs @ CHR '' '' # m # CHR ''.'' # CHR '' '' # l # ls"
    and f: "is_upper f" and fs: "fs \<noteq> []" "list_all is_alpha fs"
    and m: "is_upper m" and l: "is_upper l" and ls: "ls \<noteq> []" "list_all is_alpha ls"
    by (auto simp: first_m_last_def)
  note a = span_letters [OF fs(2) not_alpha_space]
  note b = span_all [OF ls(2)]
  note c = span_letters [OF ls(2) not_alpha_nl, of "[]"]
  show "name_pattern_match s"
    unfolding name_pattern_match_def s using f fs(1) m l ls(1)
    by (simp only: list.case a b) simp
  have s': "s @ [nl] = f # fs @ CHR '' '' # m # CHR ''.'' # CHR '' '' # l # (ls @ [nl])"
    by (simp add: s)
  show "name_pattern_match (s @ [nl])"
    unfolding name_pattern_match_def s' using f fs(1) m l ls(1) by (simp add: a c)
qed

lemma match_first_m_last:
  assumes "name_pattern_match s"
  shows "first_m_last s \<or> (\<exists>s'. s = s' @ [nl] \<and> first_m_last s')"
proof -
  from assms obtain f r0 where s: "s = f # r0"
    by (cases s) (simp_all add: name_pattern_match_def)
  let ?fs = "takeWhile is_alpha r0"
  from assms have f: "is_upper f" and fs: "?fs \<noteq> []"
    by (simp_all add: name_pattern_match_def s)
  from assms obtain m l r2 where
    d: "dropWhile is_alpha r0 = CHR '' '' # m # CHR ''.'' # CHR '' '' # l # r2"
    and m: "is_upper m" and l: "is_upper l"
    and ls: "takeWhile is_alpha r2 \<noteq> []"
    and e: "dropWhile is_alpha r2 = [] \<or> dropWhile is_alpha r2 = [nl]"
    by (auto simp: name_pattern_match_def s split: list.splits)
  let ?ls = "takeWhile is_alpha r2"
  have r0: "r0 = ?fs @ dropWhile is_alpha r0" by simp
  have r2: "r2 = ?ls @ dropWhile is_alpha r2" by simp
  have afs: "list_all is_alpha ?fs" by (auto simp: list_all_iff dest: set_takeWhileD)
  have als: "list_all is_alpha ?ls" by (auto simp: list_all_iff dest: set_takeWhileD)
  have whole: "s = f # ?fs @ CHR '' '' # m # CHR ''.'' # CHR '' '' # l # ?ls @ dropWhile is_alpha r2"
    using r0 r2 d s by metis
  have shape: "first_m_last (f # ?fs @ CHR '' '' # m # CHR ''.'' # CHR '' '' # l # ?ls)"
    unfolding first_m_last_def using f fs afs m l ls als by auto
  from e show ?thesis
  proof
    assume z: "dropWhile is_alpha r2 = []"
    have eq: "s = f # ?fs @ CHR '' '' # m # CHR ''.'' # CHR '' '' # l # ?ls"
      using whole unfolding z by (simp only: append_Nil2)
    have "first_m_last s" unfolding eq by (rule shape)
    then show ?thesis by (rule disjI1)
  next
    assume z: "dropWhile is_alpha r2 = [nl]"
    have "s = (f # ?fs @ CHR '' '' # m # CHR ''.'' # CHR '' '' # l # ?ls) @ [nl]"
      using whole unfolding z by (simp only: append_Cons append_assoc)
    then show ?thesis using shape by blast
  qed
qed

lemma name_pattern_match_iff:
  "name_pattern_match s \<longleftrightarrow> first_m_last s \<or> (\<exists>s'. s = s' @ [nl] \<and> first_m_last s')"
  using match_first_m_last first_m_last_match by blast

text \<open>
  The pattern and the name format: \<open>re.match\<close> accepts exactly the strings of the form
  "First M. Last" and those strings followed by one newline (which \<open>$\<close> lets pass).
\<close>

theorem name_pattern_is_first_m_last:
  "name_pattern_match s \<longleftrightarrow> first_m_last s \<or> (\<exists>s'. s = s' @ [nl] \<and> first_m_last s')"
  by (rule name_pattern_match_iff)

lemma strip_no_trailing_space: "strip s \<noteq> s' @ [c] \<or> \<not> is_space c"
proof (cases "dropWhile is_space (rev (lstrip s))")
  case Nil
  have "strip s = []" unfolding strip_def rstrip_def Nil by simp
  then show ?thesis by simp
next
  case (Cons x xs)
  have "\<not> is_space (hd (dropWhile is_space (rev (lstrip s))))"
    by (rule hd_dropWhile) (simp add: Cons)
  then have "\<not> is_space x" by (simp add: Cons)
  moreover have "strip s = rev xs @ [x]" by (simp add: strip_def rstrip_def Cons)
  ultimately show ?thesis by auto
qed

lemma stripped_name_match: "name_pattern_match (strip s) \<longleftrightarrow> first_m_last (strip s)"
proof -
  have "is_space nl" by (simp add: is_space_def nl_def)
  then have "\<not> (\<exists>s'. strip s = s' @ [nl] \<and> first_m_last s')"
    using strip_no_trailing_space [of s _ nl] by blast
  then show ?thesis using name_pattern_match_iff [of "strip s"] by blast
qed

text \<open>
  Claim C2, amended. A sign-up creates a user row if and only if the name and the
  password are not empty, the name with surrounding whitespace stripped matches the
  pattern, the confirmation equals the password, and no user with the stripped name is
  registered. The row then carries the stripped name, the role and the digest of the
  password; otherwise an error is shown and the store is unchanged. A stripped name
  matches the pattern exactly when it has the form "First M. Last".
\<close>

theorem signup_iff:
  "((\<exists>d' msgs. signup sha256_hex d name role pw pw2 = Inr (d', msgs) \<and>
        length (users d') = Suc (length (users d))) \<longleftrightarrow>
      name \<noteq> [] \<and> pw \<noteq> [] \<and> name_pattern_match (strip name) \<and> pw = pw2 \<and>
      strip name \<notin> set (map u_name (users d))) \<and>
   (name \<noteq> [] \<and> pw \<noteq> [] \<and> name_pattern_match (strip name) \<and> pw = pw2 \<and>
      strip name \<notin> set (map u_name (users d)) \<longrightarrow>
    signup sha256_hex d name role pw pw2 =
      Inr (d\<lparr>users := users d @
             [\<lparr>u_id = next_rowid (map u_id (users d)), u_name = strip name, u_role = role,
               u_password = sha256_hex pw\<rparr>]\<rparr>,
           [Success ''Account created. Please switch to 'Log in' to sign in.''])) \<and>
   (\<not> (name \<noteq> [] \<and> pw \<noteq> [] \<and> name_pattern_match (strip name) \<and> pw = pw2 \<and>
      strip name \<notin> set (map u_name (users d))) \<longrightarrow>
    (\<exists>msg. signup sha256_hex d name role pw pw2 = Inr (d, [Error msg]))) \<and>
   (name_pattern_match (strip name) \<longleftrightarrow> first_m_last (strip name))"
proof -
  let ?ok = "name \<noteq> [] \<and> pw \<noteq> [] \<and> name_pattern_match (strip name) \<and> pw = pw2 \<and>
      strip name \<notin> set (map u_name (users d))"
  let ?created = "\<exists>d' msgs. signup sha256_hex d name role pw pw2 = Inr (d', msgs) \<and>
        length (users d') = Suc (length (users d))"
  have good: "signup sha256_hex d name role pw pw2 =
      Inr (d\<lparr>users := users d @
             [\<lparr>u_id = next_rowid (map u_id (users d)), u_name = strip name, u_role = role,
               u_password = sha256_hex pw\<rparr>]\<rparr>,
           [Success ''Account created. Please switch to 'Log in' to sign in.''])" if ?ok
    using that signup_accepted by blast
  have bad: "\<exists>msg. signup sha256_hex d name role pw pw2 = Inr (d, [Error msg])" if "\<not> ?ok"
    using that by (rule signup_rejected)
  have "?created \<longleftrightarrow> ?ok"
  proof
    assume c: ?created
    show ?ok
    proof (rule ccontr)
      assume "\<not> ?ok"
      from bad [OF this] obtain msg where
        "signup sha256_hex d name role pw pw2 = Inr (d, [Error msg])" ..
      with c show False by simp
    qed
  next
    assume ?ok
    from good [OF this] have "signup sha256_hex d name role pw pw2 =
      Inr (d\<lparr>users := users d @
             [\<lparr>u_id = next_rowid (map u_id (users d)), u_name = strip name, u_role = role,
               u_password = sha256_hex pw\<rparr>]\<rparr>,
           [Success ''Account created. Please switch to 'Log in' to sign in.''])" .
    moreover have "length (users (d\<lparr>users := users d @
             [\<lparr>u_id = next_rowid (map u_id (users d)), u_name = strip name, u_role = role,
               u_password = sha256_hex pw\<rparr>]\<rparr>)) = Suc (length (users d))" by simp
    ultimately show ?created by blast
  qed
  then show ?thesis using good bad stripped_name_match [of name] by blast
qed

lemma strip_example1: "strip ''Juan D. Cruz'' = ''Juan D. Cruz''"
  by (simp add: strip_def lstrip_def rstrip_def is_space_def)

lemma strip_example2: "strip '' Juan D. Cruz'' = ''Juan D. Cruz''"
  by (simp add: strip_def lstrip_def rstrip_def is_space_def)

lemma match_example: "name_pattern_match ''Juan D. Cruz''"
  by (simp add: name_pattern_match_def is_upper_def is_alpha_def)

lemma no_match_example: "\<not> name_pattern_match '' Juan D. Cruz''"
  by (simp add: name_pattern_match_def is_upper_def is_alpha_def)

text \<open>
  Two sign-ups on the empty store. With an empty password and an empty confirmation the
  name matches, is not empty, is not registered and the confirmation equals the
  password, yet no row is created. A name typed with a leading space does not match the
  pattern, yet the row is created.
\<close>

theorem signup_iff_counterexample:
  "(name_pattern_match ''Juan D. Cruz'' \<and> ''Juan D. Cruz'' \<noteq> [] \<and>
    ([] :: string) = [] \<and> \<not> user_exists init_db ''Juan D. Cruz'' \<and>
    signup (\<lambda>pw. ''sha256:'' @ pw) init_db ''Juan D. Cruz'' ''student'' [] [] =
      Inr (init_db, [Error ''Please fill name and password.''])) \<and>
   (\<not> name_pattern_match '' Juan D. Cruz'' \<and>
    signup (\<lambda>pw. ''sha256:'' @ pw) init_db '' Juan D. Cruz'' ''student'' ''secret'' ''secret'' =
      Inr (init_db\<lparr>users := [\<lparr>u_id = 1, u_name = ''Juan D. Cruz'', u_role = ''student'',
             u_password = ''sha256:secret''\<rparr>]\<rparr>,
           [Success ''Account created. Please switch to 'Log in' to sign in.'']))"
proof -
  have a: "signup (\<lambda>pw. ''sha256:'' @ pw) init_db ''Juan D. Cruz'' ''student'' [] [] =
      Inr (init_db, [Error ''Please fill name and password.''])"
    by (simp add: signup_def)
  have e: "\<not> user_exists init_db ''Juan D. Cruz''"
    by (simp add: user_exists_iff init_db_def)
  have b: "signup (\<lambda>pw. ''sha256:'' @ pw) init_db '' Juan D. Cruz'' ''student'' ''secret''
      ''secret'' =
      Inr (init_db\<lparr>users := [\<lparr>u_id = 1, u_name = ''Juan D. Cruz'', u_role = ''student'',
             u_password = ''sha256:secret''\<rparr>]\<rparr>,
           [Success ''Account created. Please switch to 'Log in' to sign in.''])"
    using signup_accepted [of "'' Juan D. Cruz''" "''secret''" "''secret''" init_db
        "\<lambda>pw. ''sha256:'' @ pw" "''student''"]
    by (simp add: strip_example2 match_example init_db_def next_rowid_def)
  show ?thesis using a b e match_example no_match_example by simp
qed

theorem signup_iff_witness:
  "signup (\<lambda>pw. ''sha256:'' @ pw) init_db ''Juan D. Cruz'' ''student'' ''secret'' ''secret'' =
      Inr (init_db\<lparr>users := [\<lparr>u_id = 1, u_name = ''Juan D. Cruz'', u_role = ''student'',
             u_password = ''sha256:secret''\<rparr>]\<rparr>,
           [Success ''Account created. Please switch to 'Log in' to sign in.'']) \<and>
   (\<exists>msg. signup (\<lambda>pw. ''sha256:'' @ pw) init_db ''Juan D. Cruz'' ''student'' ''secret''
      ''secrte'' = Inr (init_db, [Error msg]))"
proof -
  have ok: "''Juan D. Cruz'' \<noteq> [] \<and> ''secret'' \<noteq> [] \<and>
      name_pattern_match (strip ''Juan D. Cruz'') \<and> ''secret'' = ''secret'' \<and>
      strip ''Juan D. Cruz'' \<notin> set (map u_name (users init_db))"
    by (simp add: strip_example1 match_example init_db_def)
  have bad: "\<not> (''Juan D. Cruz'' \<noteq> [] \<and> ''secret'' \<noteq> [] \<and>
      name_pattern_match (strip ''Juan D. Cruz'') \<and> ''secret'' = ''secrte'' \<and>
      strip ''Juan D. Cruz'' \<notin> set (map u_name (users init_db)))"
    by simp
  note t1 = signup_iff [of "\<lambda>pw. ''sha256:'' @ pw" init_db "''Juan D. Cruz''" "''student''"
      "''secret''" "''secret''"]
  note t2 = signup_iff [of "\<lambda>pw. ''sha256:'' @ pw" init_db "''Juan D. Cruz''" "''student''"
      "''secret''" "''secrte''"]
  have one: "signup (\<lambda>pw. ''sha256:'' @ pw) init_db ''Juan D. Cruz'' ''student'' ''secret''
      ''secret'' =
      Inr (init_db\<lparr>users := users init_db @
             [\<lparr>u_id = next_rowid (map u_id (users init_db)), u_name = strip ''Juan D. Cruz'',
               u_role = ''student'', u_password = ''sha256:'' @ ''secret''\<rparr>]\<rparr>,
           [Success ''Account created. Please switch to 'Log in' to sign in.''])"
    using t1 ok by blast
  have two: "\<exists>msg. signup (\<lambda>pw. ''sha256:'' @ pw) init_db ''Juan D. Cruz'' ''student''
      ''secret'' ''secrte'' = Inr (init_db, [Error msg])"
    using t2 bad by blast
  show ?thesis using one two by (simp add: strip_example1 init_db_def next_rowid_def)
qed

lemma validate_user_unregistered:
  "name \<notin> set (map u_name (users d)) \<Longrightarrow> validate_user sha256_hex d name pw = (None, None)"
proof -
  assume "name \<notin> set (map u_name (users d))"
  then have "[u \<leftarrow> users d. u_name u = name] = []"
    by (auto simp: filter_empty_conv)
  then show ?thesis by (simp add: validate_user_def fetchone_def)
qed

lemma login_rejected:
  "validate_user sha256_hex d (strip name) pw = (None, None) \<Longrightarrow>
   \<exists>msg. login sha256_hex d ss name pw = (ss, [Error msg])"
  by (simp add: login_def)

text \<open>
  Claim C9. After \<open>create_user\<close> has succeeded for a name, a role and a password,
  \<open>validate_user\<close> with that name and password returns the new id and the role; with a
  password whose digest differs from the stored one, and with any name that is not
  registered, it returns \<open>(None, None)\<close>, and the log-in form then shows an error and
  leaves the session as it was.
\<close>

theorem login_roundtrip:
  assumes "create_user sha256_hex d name role pw = Inr (uid, d')"
  shows "validate_user sha256_hex d' name pw = (Some uid, Some role) \<and>
    (\<forall>pw'. sha256_hex pw' \<noteq> sha256_hex pw \<longrightarrow>
       validate_user sha256_hex d' name pw' = (None, None) \<and>
       (\<forall>ss typed. strip typed = name \<longrightarrow>
          (\<exists>msg. login sha256_hex d' ss typed pw' = (ss, [Error msg])))) \<and>
    (\<forall>name' pw'. name' \<notin> set (map u_name (users d')) \<longrightarrow>
       validate_user sha256_hex d' name' pw' = (None, None) \<and>
       (\<forall>ss typed. strip typed = name' \<longrightarrow>
          (\<exists>msg. login sha256_hex d' ss typed pw' = (ss, [Error msg]))))"
proof -
  from assms have fresh: "name \<notin> set (map u_name (users d))"
    and uid: "uid = next_rowid (map u_id (users d))"
    and d': "d' = d\<lparr>users := users d @
       [\<lparr>u_id = uid, u_name = name, u_role = role, u_password = sha256_hex pw\<rparr>]\<rparr>"
    by (simp_all add: create_user_Inr)
  have none: "[u \<leftarrow> users d. u_name u = name] = []"
    using fresh by (auto simp: filter_empty_conv)
  have row: "[u \<leftarrow> users d'. u_name u = name] =
      [\<lparr>u_id = uid, u_name = name, u_role = role, u_password = sha256_hex pw\<rparr>]"
    by (simp add: d' none)
  have right: "validate_user sha256_hex d' name pw = (Some uid, Some role)"
    by (simp add: validate_user_def row fetchone_Cons hash_pw_def)
  have wrong: "validate_user sha256_hex d' name pw' = (None, None)"
    if "sha256_hex pw' \<noteq> sha256_hex pw" for pw'
    using that by (auto simp: validate_user_def row fetchone_Cons hash_pw_def)
  have wrong_login: "\<exists>msg. login sha256_hex d' ss typed pw' = (ss, [Error msg])"
    if "sha256_hex pw' \<noteq> sha256_hex pw" "strip typed = name" for pw' ss typed
    using wrong [OF that(1)] that(2) login_rejected [of sha256_hex d' typed pw' ss] by simp
  have unknown_login: "\<exists>msg. login sha256_hex d' ss typed pw' = (ss, [Error msg])"
    if "name' \<notin> set (map u_name (users d'))" "strip typed = name'" for name' pw' ss typed
    using validate_user_unregistered [OF that(1), of sha256_hex pw'] that(2)
      login_rejected [of sha256_hex d' typed pw' ss] by simp
  have a: "\<forall>pw'. sha256_hex pw' \<noteq> sha256_hex pw \<longrightarrow>
       validate_user sha256_hex d' name pw' = (None, None) \<and>
       (\<forall>ss typed. strip typed = name \<longrightarrow>
          (\<exists>msg. login sha256_hex d' ss typed pw' = (ss, [Error msg])))"
    using wrong wrong_login by blast
  have b: "\<forall>name' pw'. name' \<notin> set (map u_name (users d')) \<longrightarrow>
       validate_user sha256_hex d' name' pw' = (None, None) \<and>
       (\<forall>ss typed. strip typed = name' \<longrightarrow>
          (\<exists>msg. login sha256_hex d' ss typed pw' = (ss, [Error msg])))"
    using validate_user_unregistered unknown_login by blast
  show ?thesis using right a b by (intro conjI)
qed

theorem login_roundtrip_witness:
  "create_user (\<lambda>pw. ''sha256:'' @ pw) init_db ''Juan D. Cruz'' ''student'' ''secret'' =
     Inr (1, init_db\<lparr>users := [\<lparr>u_id = 1, u_name = ''Juan D. Cruz'', u_role = ''student'',
            u_password = ''sha256:secret''\<rparr>]\<rparr>) \<and>
   validate_user (\<lambda>pw. ''sha256:'' @ pw)
     (init_db\<lparr>users := [\<lparr>u_id = 1, u_name = ''Juan D. Cruz'', u_role = ''student'',
            u_password = ''sha256:secret''\<rparr>]\<rparr>) ''Juan D. Cruz'' ''secret'' =
     (Some 1, Some ''student'') \<and>
   validate_user (\<lambda>pw. ''sha256:'' @ pw)
     (init_db\<lparr>users := [\<lparr>u_id = 1, u_name = ''Juan D. Cruz'', u_role = ''student'',
            u_password = ''sha256:secret''\<rparr>]\<rparr>) ''Juan D. Cruz'' ''guess'' =
     (None, None) \<and>
   validate_user (\<lambda>pw. ''sha256:'' @ pw)
     (init_db\<lparr>users := [\<lparr>u_id = 1, u_name = ''Juan D. Cruz'', u_role = ''student'',
            u_password = ''sha256:secret''\<rparr>]\<rparr>) ''Maria L. Santos'' ''secret'' =
     (None, None)"
proof -
  let ?sha = "\<lambda>pw. ''sha256:'' @ pw"
  let ?d' = "init_db\<lparr>users := [\<lparr>u_id = 1, u_name = ''Juan D. Cruz'', u_role = ''student'',
            u_password = ''sha256:secret''\<rparr>]\<rparr>"
  have c: "create_user ?sha init_db ''Juan D. Cruz'' ''student'' ''secret'' = Inr (1, ?d')"
    by (simp add: create_user_def hash_pw_def init_db_def next_rowid_def)
  have p: "?sha ''guess'' \<noteq> ?sha ''secret''" by simp
  have n: "''Maria L. Santos'' \<notin> set (map u_name (users ?d'))" by simp
  note t = login_roundtrip [OF c]
  have r: "validate_user ?sha ?d' ''Juan D. Cruz'' ''secret'' = (Some 1, Some ''student'')"
    using t by (rule conjunct1)
  have w: "validate_user ?sha ?d' ''Juan D. Cruz'' ''guess'' = (None, None)"
    using t [THEN conjunct2, THEN conjunct1, rule_format, OF p] by (rule conjunct1)
  have u: "validate_user ?sha ?d' ''Maria L. Santos'' ''secret'' = (None, None)"
    using t [THEN conjunct2, THEN conjunct2, rule_format, OF n] by (rule conjunct1)
  show ?thesis using c r w u by (intro conjI)
qed

section \<open>The store invariant\<close>

lemma fold_max_ge: "a \<le> fold max ids (a::nat)"
proof (induction ids arbitrary: a)
  case Nil
  show ?case by simp
next
  case (Cons x xs)
  have "a \<le> max x a" by simp
  also have "max x a \<le> fold max xs (max x a)" by (rule Cons.IH)
  finally show ?case by simp
qed

lemma fold_max_member: "i \<in> set ids \<Longrightarrow> i \<le> fold max ids (a::nat)"
proof (induction ids arbitrary: a)
  case Nil
  then show ?case by simp
next
  case (Cons x xs)
  show ?case
  proof (cases "i = x")
    case True
    have "i \<le> max x a" using True by simp
    also have "max x a \<le> fold max xs (max x a)" by (rule fold_max_ge)
    finally show ?thesis by simp
  next
    case False
    then have "i \<in> set xs" using Cons.prems by simp
    then have "i \<le> fold max xs (max x a)" by (rule Cons.IH)
    then show ?thesis by simp
  qed
qed

lemma next_rowid_above: "i \<in> set ids \<Longrightarrow> i < next_rowid ids"
  using fold_max_member [of i ids 0] by (simp add: next_rowid_def)

lemma random_choices_length: "length (random_choices population k rnd) = k"
  by (simp add: random_choices_def)

lemma random_choices_subset:
  "\<forall>i < k. rnd i < length population \<Longrightarrow> set (random_choices population k rnd) \<subseteq> set population"
  by (auto simp: random_choices_def)

lemma create_class_Inr:
  "create_class d teacher_id name rnd now = Inr (code, d') \<longleftrightarrow>
     code = random_choices alphabet 6 rnd \<and> code \<notin> set (map c_code (classes d)) \<and>
     d' = d\<lparr>classes := classes d @
          [\<lparr>c_id = next_rowid (map c_id (classes d)), c_teacher_id = teacher_id,
            c_name = name, c_code = code, c_created_at = now\<rparr>]\<rparr>"
  by (auto simp: create_class_def Let_def)

lemma join_cases:
  "join_class_by_code d student_id code now = (res, d') \<Longrightarrow>
     d' = d \<or>
     (\<exists>cls. fetchone [c \<leftarrow> classes d. c_code c = code] = Some cls \<and>
        [m \<leftarrow> class_members d. m_class_id m = c_id cls \<and> m_student_id m = student_id] = [] \<and>
        d' = d\<lparr>class_members := class_members d @
                  [\<lparr>m_id = next_rowid (map m_id (class_members d)), m_class_id = c_id cls,
                    m_student_id = student_id, m_joined_at = now\<rparr>]\<rparr>)"
  by (auto simp: join_class_by_code_def Let_def fetchone_None split: option.splits)

lemma store_inv_init: "store_inv init_db"
  by (simp add: store_inv_def init_db_def)

lemma store_inv_user:
  assumes "store_inv d" "create_user sha256_hex d name role pw = Inr (uid, d')"
  shows "store_inv d'"
proof -
  from assms(2) have uid: "uid = next_rowid (map u_id (users d))"
    and d': "d' = d\<lparr>users := users d @
       [\<lparr>u_id = uid, u_name = name, u_role = role, u_password = sha256_hex pw\<rparr>]\<rparr>"
    by (simp_all add: create_user_Inr)
  have "uid \<notin> set (map u_id (users d))"
    using next_rowid_above [of uid "map u_id (users d)"] uid by auto
  then show ?thesis using assms(1) by (simp add: store_inv_def d')
qed

lemma store_inv_survey:
  assumes "store_inv d"
  shows "store_inv (save_survey d user_id mi_scores dominant now)"
proof -
  have "\<forall>i \<in> set (map s_id (survey_results d)). i < next_rowid (map s_id (survey_results d))"
    using next_rowid_above by blast
  then show ?thesis
    using assms by (simp add: store_inv_def save_survey_def sorted_wrt_append)
qed

lemma store_inv_class:
  assumes "store_inv d" "create_class d teacher_id name rnd now = Inr (code, d')"
    "\<forall>i < 6. rnd i < length alphabet"
  shows "store_inv d'"
proof -
  from assms(2) have code: "code = random_choices alphabet 6 rnd"
    and fresh: "code \<notin> set (map c_code (classes d))"
    and d': "d' = d\<lparr>classes := classes d @
          [\<lparr>c_id = next_rowid (map c_id (classes d)), c_teacher_id = teacher_id,
            c_name = name, c_code = code, c_created_at = now\<rparr>]\<rparr>"
    by (auto simp: create_class_Inr)
  have len: "length code = 6" by (simp add: code random_choices_length)
  have sub: "set code \<subseteq> set alphabet"
    unfolding code using assms(3) by (intro random_choices_subset)
  show ?thesis using assms(1) fresh len sub by (simp add: store_inv_def d')
qed

lemma store_inv_member:
  assumes "store_inv d" "join_class_by_code d student_id code now = (res, d')"
  shows "store_inv d'"
proof -
  from join_cases [OF assms(2)] show ?thesis
  proof
    assume "d' = d"
    then show ?thesis using assms(1) by simp
  next
    assume "\<exists>cls. fetchone [c \<leftarrow> classes d. c_code c = code] = Some cls \<and>
        [m \<leftarrow> class_members d. m_class_id m = c_id cls \<and> m_student_id m = student_id] = [] \<and>
        d' = d\<lparr>class_members := class_members d @
                  [\<lparr>m_id = next_rowid (map m_id (class_members d)), m_class_id = c_id cls,
                    m_student_id = student_id, m_joined_at = now\<rparr>]\<rparr>"
    then obtain cls :: class_row where
      none: "[m \<leftarrow> class_members d. m_class_id m = c_id cls \<and> m_student_id m = student_id] = []"
      and d': "d' = d\<lparr>class_members := class_members d @
                  [\<lparr>m_id = next_rowid (map m_id (class_members d)), m_class_id = c_id cls,
                    m_student_id = student_id, m_joined_at = now\<rparr>]\<rparr>" by blast
    have "(c_id cls, student_id) \<notin> set (map (\<lambda>m. (m_class_id m, m_student_id m)) (class_members d))"
      using none by (auto simp: filter_empty_conv)
    then show ?thesis using assms(1) by (simp add: store_inv_def d')
  qed
qed

lemma store_inv_class_lesson:
  "store_inv d \<Longrightarrow>
   store_inv (save_class_lesson d class_id student_id topic subject mi_type content now)"
  by (simp add: store_inv_def save_class_lesson_def)


lemma reachable_store_inv: "reachable d \<Longrightarrow> store_inv d"
proof (induction rule: reachable.induct)
  case start
  show ?case by (rule store_inv_init)
next
  case (user d sha256_hex name role pw uid d')
  then show ?case using store_inv_user by blast
next
  case (survey d user_id mi_scores dominant now)
  then show ?case using store_inv_survey by blast
next
  case (new_class d rnd teacher_id name now code d')
  then show ?case using store_inv_class by blast
next
  case (member d student_id code now res d')
  then show ?case using store_inv_member by blast
next
  case (class_lesson d class_id student_id topic subject mi_type content now)
  then show ?case using store_inv_class_lesson by blast
qed

section \<open>Join codes\<close>

text \<open>
  Claim C3. In every state of the store, a class creation that succeeds returns and
  stores a join code of exactly six characters, each an uppercase letter or a digit, and
  afterwards all stored join codes are pairwise distinct and of that form.
\<close>

theorem join_codes_format_distinct:
  assumes "reachable d" and "\<forall>i < 6. rnd i < length alphabet"
    and "create_class d teacher_id name rnd now = Inr (code, d')"
  shows "length code = 6 \<and>
    set code \<subseteq> set ''ABCDEFGHIJKLMNOPQRSTUVWXYZ0123456789'' \<and>
    map c_code (classes d') = map c_code (classes d) @ [code] \<and>
    distinct (map c_code (classes d')) \<and>
    list_all (\<lambda>c. length (c_code c) = 6 \<and>
      set (c_code c) \<subseteq> set ''ABCDEFGHIJKLMNOPQRSTUVWXYZ0123456789'') (classes d')"
proof -
  have r': "reachable d'" using assms by (rule reachable.new_class)
  have inv: "store_inv d'" using r' by (rule reachable_store_inv)
  have stored: "map c_code (classes d') = map c_code (classes d) @ [code]"
    using assms(3) by (auto simp: create_class_Inr)
  have all: "list_all (\<lambda>c. length (c_code c) = 6 \<and> set (c_code c) \<subseteq> set alphabet) (classes d')"
    and dist: "distinct (map c_code (classes d'))"
    using inv by (simp_all add: store_inv_def)
  have "code \<in> set (map c_code (classes d'))" using stored by simp
  then obtain c where c: "c \<in> set (classes d')" "c_code c = code" by auto
  have "length (c_code c) = 6 \<and> set (c_code c) \<subseteq> set alphabet"
    using all c(1) by (simp add: list_all_iff)
  then have "length code = 6" "set code \<subseteq> set alphabet" using c(2) by simp_all
  then show ?thesis using stored dist all unfolding alphabet_def by (intro conjI)
qed

lemma class_example_reachable:
  "reachable (init_db\<lparr>classes := [\<lparr>c_id = 1, c_teacher_id = 1, c_name = ''Algebra I'',
       c_code = ''AHOV29'', c_created_at = ''2026-11-04T09:00:00''\<rparr>]\<rparr>)"
proof -
  have rnd: "\<forall>i < 6. (\<lambda>i. 7 * i) i < length alphabet"
    by (simp add: alphabet_def)
  have code: "random_choices alphabet 6 (\<lambda>i. 7 * i) = ''AHOV29''"
    by (simp add: random_choices_def alphabet_def upt_rec)
  have c: "create_class init_db 1 ''Algebra I'' (\<lambda>i. 7 * i) ''2026-11-04T09:00:00'' =
     Inr (''AHOV29'', init_db\<lparr>classes := [\<lparr>c_id = 1, c_teacher_id = 1, c_name = ''Algebra I'',
       c_code = ''AHOV29'', c_created_at = ''2026-11-04T09:00:00''\<rparr>]\<rparr>)"
    by (simp add: create_class_def code init_db_def next_rowid_def Let_def)
  show ?thesis using reachable.start rnd c by (rule reachable.new_class)
qed

theorem join_codes_format_distinct_witness:
  "reachable (init_db\<lparr>classes := [\<lparr>c_id = 1, c_teacher_id = 1, c_name = ''Algebra I'',
       c_code = ''AHOV29'', c_created_at = ''2026-11-04T09:00:00''\<rparr>]\<rparr>) \<and>
   create_class
     (init_db\<lparr>classes := [\<lparr>c_id = 1, c_teacher_id = 1, c_name = ''Algebra I'',
       c_code = ''AHOV29'', c_created_at = ''2026-11-04T09:00:00''\<rparr>]\<rparr>)
     2 ''Geometry'' (\<lambda>i. 5 * i + 1) ''2026-11-04T09:10:00'' =
     Inr (''BGLQV0'',
       init_db\<lparr>classes := [\<lparr>c_id = 1, c_teacher_id = 1, c_name = ''Algebra I'',
         c_code = ''AHOV29'', c_created_at = ''2026-11-04T09:00:00''\<rparr>,
        \<lparr>c_id = 2, c_teacher_id = 2, c_name = ''Geometry'',
         c_code = ''BGLQV0'', c_created_at = ''2026-11-04T09:10:00''\<rparr>]\<rparr>) \<and>
   length ''BGLQV0'' = 6 \<and>
   map c_code (classes
     (init_db\<lparr>classes := [\<lparr>c_id = 1, c_teacher_id = 1, c_name = ''Algebra I'',
         c_code = ''AHOV29'', c_created_at = ''2026-11-04T09:00:00''\<rparr>,
        \<lparr>c_id = 2, c_teacher_id = 2, c_name = ''Geometry'',
         c_code = ''BGLQV0'', c_created_at = ''2026-11-04T09:10:00''\<rparr>]\<rparr>)) =
     [''AHOV29'', ''BGLQV0''] \<and>
   distinct (map c_code (classes
     (init_db\<lparr>classes := [\<lparr>c_id = 1, c_teacher_id = 1, c_name = ''Algebra I'',
         c_code = ''AHOV29'', c_created_at = ''2026-11-04T09:00:00''\<rparr>,
        \<lparr>c_id = 2, c_teacher_id = 2, c_name = ''Geometry'',
         c_code = ''BGLQV0'', c_created_at = ''2026-11-04T09:10:00''\<rparr>]\<rparr>))) \<and>
   create_class
     (init_db\<lparr>classes := [\<lparr>c_id = 1, c_teacher_id = 1, c_name = ''Algebra I'',
       c_code = ''AHOV29'', c_created_at = ''2026-11-04T09:00:00''\<rparr>]\<rparr>)
     2 ''Geometry'' (\<lambda>i. 7 * i) ''2026-11-04T09:10:00'' = Inl IntegrityError"
proof -
  let ?c1 = "\<lparr>c_id = 1, c_teacher_id = 1, c_name = ''Algebra I'',
       c_code = ''AHOV29'', c_created_at = ''2026-11-04T09:00:00''\<rparr>"
  let ?c2 = "\<lparr>c_id = 2, c_teacher_id = 2, c_name = ''Geometry'',
         c_code = ''BGLQV0'', c_created_at = ''2026-11-04T09:10:00''\<rparr>"
  let ?d1 = "init_db\<lparr>classes := [?c1]\<rparr>"
  let ?d2 = "init_db\<lparr>classes := [?c1, ?c2]\<rparr>"
  have r: "reachable ?d1" by (rule class_example_reachable)
  have rnd: "\<forall>i < 6. (\<lambda>i. 5 * i + 1) i < length alphabet"
    by (simp add: alphabet_def)
  have code: "random_choices alphabet 6 (\<lambda>i. 5 * i + 1) = ''BGLQV0''"
    by (simp add: random_choices_def alphabet_def upt_rec)
  have same: "random_choices alphabet 6 (\<lambda>i. 7 * i) = ''AHOV29''"
    by (simp add: random_choices_def alphabet_def upt_rec)
  have c: "create_class ?d1 2 ''Geometry'' (\<lambda>i. 5 * i + 1) ''2026-11-04T09:10:00'' =
      Inr (''BGLQV0'', ?d2)"
    using code by (simp add: create_class_def init_db_def next_rowid_def Let_def)
  have clash: "create_class ?d1 2 ''Geometry'' (\<lambda>i. 7 * i) ''2026-11-04T09:10:00'' =
      Inl IntegrityError"
    using same by (simp add: create_class_def Let_def)
  note t = join_codes_format_distinct [OF r rnd c]
  have l: "length ''BGLQV0'' = 6" using t by (rule conjunct1)
  have stored: "map c_code (classes ?d2) = map c_code (classes ?d1) @ [''BGLQV0'']"
    using t [THEN conjunct2, THEN conjunct2] by (rule conjunct1)
  have codes: "map c_code (classes ?d2) = [''AHOV29'', ''BGLQV0'']"
    using stored by simp
  have d: "distinct (map c_code (classes ?d2))"
    using t [THEN conjunct2, THEN conjunct2, THEN conjunct2] by (rule conjunct1)
  show ?thesis using r c l codes d clash by (intro conjI)
qed

section \<open>Joining a class\<close>

lemma membership_count_le_1:
  assumes "store_inv d"
  shows "membership_count d class_id student_id \<le> 1"
proof -
  have d: "distinct (map (\<lambda>m. (m_class_id m, m_student_id m)) (class_members d))"
    using assms by (simp add: store_inv_def)
  have "length [m \<leftarrow> ms. f m = k] \<le> 1" if "distinct (map f ms)" for ms :: "member_row list"
    and f :: "member_row \<Rightarrow> nat \<times> nat" and k
    using that
  proof (induction ms)
    case Nil
    then show ?case by simp
  next
    case (Cons m ms)
    show ?case
    proof (cases "f m = k")
      case True
      then have "k \<notin> f ` set ms" using Cons.prems by auto
      then have "[x \<leftarrow> ms. f x = k] = []" by (auto simp: filter_empty_conv)
      then show ?thesis using True by simp
    next
      case False
      then show ?thesis using Cons by simp
    qed
  qed
  from this [OF d, of "(class_id, student_id)"] show ?thesis
    by (simp add: membership_count_def)
qed

text \<open>
  Claim C4. For a student and the code of an existing class: after a join the student
  has exactly one membership row in the class, and a second join returns success with
  "Already a member." and leaves the store as it is. A first join (no membership row
  yet) returns "Joined successfully." and appends exactly one row; a join of a member
  changes nothing.
\<close>

theorem join_twice_one_membership:
  assumes "reachable d" and "fetchone [c \<leftarrow> classes d. c_code c = code] = Some cls"
  shows
    "membership_count (snd (join_class_by_code d student_id code now)) (c_id cls) student_id = 1 \<and>
     join_class_by_code (snd (join_class_by_code d student_id code now)) student_id code now' =
       ((True, ''Already a member.''), snd (join_class_by_code d student_id code now)) \<and>
     (membership_count d (c_id cls) student_id = 0 \<longrightarrow>
        join_class_by_code d student_id code now =
          ((True, ''Joined successfully.''),
           d\<lparr>class_members := class_members d @
             [\<lparr>m_id = next_rowid (map m_id (class_members d)), m_class_id = c_id cls,
               m_student_id = student_id, m_joined_at = now\<rparr>]\<rparr>)) \<and>
     (membership_count d (c_id cls) student_id \<noteq> 0 \<longrightarrow>
        join_class_by_code d student_id code now = ((True, ''Already a member.''), d))"
proof -
  let ?rows = "[m \<leftarrow> class_members d. m_class_id m = c_id cls \<and> m_student_id m = student_id]"
  let ?d1 = "d\<lparr>class_members := class_members d @
             [\<lparr>m_id = next_rowid (map m_id (class_members d)), m_class_id = c_id cls,
               m_student_id = student_id, m_joined_at = now\<rparr>]\<rparr>"
  have inv: "store_inv d" using assms(1) by (rule reachable_store_inv)
  have le: "membership_count d (c_id cls) student_id \<le> 1"
    using inv by (rule membership_count_le_1)
  have first: "join_class_by_code d student_id code now = ((True, ''Joined successfully.''), ?d1)"
    if "membership_count d (c_id cls) student_id = 0"
  proof -
    have "?rows = []" using that by (simp add: membership_count_def)
    then show ?thesis
      unfolding join_class_by_code_def assms(2) by (simp add: Let_def fetchone_def)
  qed
  have again: "join_class_by_code d student_id code t = ((True, ''Already a member.''), d)"
    if "membership_count d (c_id cls) student_id \<noteq> 0" for t
  proof -
    have "?rows \<noteq> []" using that by (simp add: membership_count_def)
    then obtain m ms where "?rows = m # ms" by (cases ?rows) auto
    then show ?thesis
      unfolding join_class_by_code_def assms(2) by (simp add: Let_def fetchone_def)
  qed
  have cls1: "fetchone [c \<leftarrow> classes ?d1. c_code c = code] = Some cls"
    using assms(2) by simp
  have rows1: "[m \<leftarrow> class_members ?d1. m_class_id m = c_id cls \<and> m_student_id m = student_id] =
      ?rows @ [\<lparr>m_id = next_rowid (map m_id (class_members d)), m_class_id = c_id cls,
               m_student_id = student_id, m_joined_at = now\<rparr>]"
    by simp
  have second1: "join_class_by_code ?d1 student_id code now' = ((True, ''Already a member.''), ?d1)"
  proof -
    obtain m ms where "[m \<leftarrow> class_members ?d1.
        m_class_id m = c_id cls \<and> m_student_id m = student_id] = m # ms"
      unfolding rows1 by (cases ?rows) auto
    then show ?thesis
      unfolding join_class_by_code_def cls1 by (simp add: Let_def fetchone_def)
  qed
  show ?thesis
  proof (cases "membership_count d (c_id cls) student_id = 0")
    case True
    have c1: "membership_count ?d1 (c_id cls) student_id = 1"
      using True by (simp add: membership_count_def)
    show ?thesis using True first [OF True] c1 second1 by simp
  next
    case False
    then have one: "membership_count d (c_id cls) student_id = 1" using le by simp
    show ?thesis using False again [OF False, of now] again [OF False, of now'] one by simp
  qed
qed

theorem join_twice_one_membership_witness:
  "reachable (init_db\<lparr>classes := [\<lparr>c_id = 1, c_teacher_id = 1, c_name = ''Algebra I'',
       c_code = ''AHOV29'', c_created_at = ''2026-11-04T09:00:00''\<rparr>]\<rparr>) \<and>
   join_class_by_code
     (init_db\<lparr>classes := [\<lparr>c_id = 1, c_teacher_id = 1, c_name = ''Algebra I'',
       c_code = ''AHOV29'', c_created_at = ''2026-11-04T09:00:00''\<rparr>]\<rparr>)
     7 ''AHOV29'' ''2026-11-04T10:00:00'' =
     ((True, ''Joined successfully.''),
      init_db\<lparr>classes := [\<lparr>c_id = 1, c_teacher_id = 1, c_name = ''Algebra I'',
         c_code = ''AHOV29'', c_created_at = ''2026-11-04T09:00:00''\<rparr>],
       class_members := [\<lparr>m_id = 1, m_class_id = 1, m_student_id = 7,
         m_joined_at = ''2026-11-04T10:00:00''\<rparr>]\<rparr>) \<and>
   join_class_by_code
     (init_db\<lparr>classes := [\<lparr>c_id = 1, c_teacher_id = 1, c_name = ''Algebra I'',
         c_code = ''AHOV29'', c_created_at = ''2026-11-04T09:00:00''\<rparr>],
       class_members := [\<lparr>m_id = 1, m_class_id = 1, m_student_id = 7,
         m_joined_at = ''2026-11-04T10:00:00''\<rparr>]\<rparr>)
     7 ''AHOV29'' ''2026-11-04T11:00:00'' =
     ((True, ''Already a member.''),
      init_db\<lparr>classes := [\<lparr>c_id = 1, c_teacher_id = 1, c_name = ''Algebra I'',
         c_code = ''AHOV29'', c_created_at = ''2026-11-04T09:00:00''\<rparr>],
       class_members := [\<lparr>m_id = 1, m_class_id = 1, m_student_id = 7,
         m_joined_at = ''2026-11-04T10:00:00''\<rparr>]\<rparr>) \<and>
   membership_count
     (init_db\<lparr>classes := [\<lparr>c_id = 1, c_teacher_id = 1, c_name = ''Algebra I'',
         c_code = ''AHOV29'', c_created_at = ''2026-11-04T09:00:00''\<rparr>],
       class_members := [\<lparr>m_id = 1, m_class_id = 1, m_student_id = 7,
         m_joined_at = ''2026-11-04T10:00:00''\<rparr>]\<rparr>) 1 7 = 1"
proof -
  let ?cls = "\<lparr>c_id = 1, c_teacher_id = 1, c_name = ''Algebra I'',
       c_code = ''AHOV29'', c_created_at = ''2026-11-04T09:00:00''\<rparr>"
  let ?d1 = "init_db\<lparr>classes := [?cls]\<rparr>"
  let ?d2 = "init_db\<lparr>classes := [?cls],
       class_members := [\<lparr>m_id = 1, m_class_id = 1, m_student_id = 7,
         m_joined_at = ''2026-11-04T10:00:00''\<rparr>]\<rparr>"
  have r: "reachable ?d1" by (rule class_example_reachable)
  have f: "fetchone [c \<leftarrow> classes ?d1. c_code c = ''AHOV29''] = Some ?cls"
    by (simp add: fetchone_def)
  have z: "membership_count ?d1 (c_id ?cls) 7 = 0"
    by (simp add: membership_count_def init_db_def)
  note t = join_twice_one_membership [OF r f, of 7 "''2026-11-04T10:00:00''"
      "''2026-11-04T11:00:00''"]
  have j1: "join_class_by_code ?d1 7 ''AHOV29'' ''2026-11-04T10:00:00'' =
      ((True, ''Joined successfully.''), ?d2)"
    using t [THEN conjunct2, THEN conjunct2, THEN conjunct1, rule_format, OF z]
    by (simp add: init_db_def next_rowid_def)
  have s: "snd (join_class_by_code ?d1 7 ''AHOV29'' ''2026-11-04T10:00:00'') = ?d2"
    by (simp only: j1 snd_conv)
  have j2: "join_class_by_code ?d2 7 ''AHOV29'' ''2026-11-04T11:00:00'' =
      ((True, ''Already a member.''), ?d2)"
    using t [THEN conjunct2, THEN conjunct1] unfolding s .
  have c: "membership_count ?d2 1 7 = 1"
    using t [THEN conjunct1] unfolding s by simp
  show ?thesis using r j1 j2 c by (intro conjI)
qed

section \<open>Latest dominant intelligence\<close>

lemma fetchone_rev: "fetchone (rev rows) = (if rows = [] then None else Some (last rows))"
  by (cases rows rule: rev_cases) (simp_all add: fetchone_def)

lemma latest_by_id:
  assumes "sorted_wrt (<) (map s_id rows)"
  shows "fetchone (rev (sort_key s_id [s \<leftarrow> rows. P s])) =
     (if [s \<leftarrow> rows. P s] = [] then None else Some (last [s \<leftarrow> rows. P s]))"
proof -
  have "sorted_wrt (\<lambda>a b. s_id a < s_id b) rows"
    using assms by (simp add: sorted_wrt_map)
  then have "sorted_wrt (\<lambda>a b. s_id a < s_id b) [s \<leftarrow> rows. P s]"
    by (rule sorted_wrt_filter)
  then have "sorted_wrt (\<lambda>a b. s_id a \<le> s_id b) [s \<leftarrow> rows. P s]"
    by (rule sorted_wrt_mono_rel [rotated]) simp
  then have "sorted (map s_id [s \<leftarrow> rows. P s])"
    by (simp add: sorted_wrt_map)
  then have "sort_key s_id [s \<leftarrow> rows. P s] = [s \<leftarrow> rows. P s]"
    by (rule sort_key_id_if_sorted)
  then show ?thesis by (simp only: fetchone_rev)
qed

lemma get_latest_last:
  assumes "store_inv d"
  shows "get_latest_dominant_mi d user_id =
     (if [s \<leftarrow> survey_results d. s_user_id s = user_id] = [] then None
      else Some (s_dominant_mi (last [s \<leftarrow> survey_results d. s_user_id s = user_id])))"
proof -
  have "sorted_wrt (<) (map s_id (survey_results d))"
    using assms by (simp add: store_inv_def)
  from latest_by_id [OF this, of "\<lambda>s. s_user_id s = user_id"] show ?thesis
    by (simp add: get_latest_dominant_mi_def)
qed

text \<open>
  Claim C7. In every state of the store, for a user with at least one survey row the
  lookup returns the dominant category of the row inserted last for that user; right
  after a survey is saved it returns the category just saved. For a user without a
  survey row the lookup returns \<open>None\<close> and tailoring uses "General".
\<close>

theorem latest_dominant_is_last_survey:
  assumes "reachable d"
  shows
    "([s \<leftarrow> survey_results d. s_user_id s = user_id] \<noteq> [] \<longrightarrow>
        get_latest_dominant_mi d user_id =
          Some (s_dominant_mi (last [s \<leftarrow> survey_results d. s_user_id s = user_id]))) \<and>
     ([s \<leftarrow> survey_results d. s_user_id s = user_id] = [] \<longrightarrow>
        get_latest_dominant_mi d user_id = None \<and> dominant_or_general d user_id = ''General'') \<and>
     get_latest_dominant_mi (save_survey d user_id mi_scores dominant now) user_id =
       Some dominant"
proof -
  have inv: "store_inv d" using assms by (rule reachable_store_inv)
  have inv': "store_inv (save_survey d user_id mi_scores dominant now)"
    using inv by (rule store_inv_survey)
  have a: "get_latest_dominant_mi d user_id =
     (if [s \<leftarrow> survey_results d. s_user_id s = user_id] = [] then None
      else Some (s_dominant_mi (last [s \<leftarrow> survey_results d. s_user_id s = user_id])))"
    using inv by (rule get_latest_last)
  have b: "get_latest_dominant_mi (save_survey d user_id mi_scores dominant now) user_id =
      Some dominant"
    unfolding get_latest_last [OF inv'] by (simp add: save_survey_def)
  have c: "dominant_or_general d user_id = ''General''"
    if "[s \<leftarrow> survey_results d. s_user_id s = user_id] = []"
    using that a by (simp add: dominant_or_general_def)
  show ?thesis using a b c by simp
qed

theorem latest_dominant_is_last_survey_witness:
  "reachable (save_survey (save_survey init_db 7 [] ''Musical'' ''2026-11-03T09:00:00'')
     7 [] ''Linguistic'' ''2026-11-04T09:00:00'') \<and>
   get_latest_dominant_mi
     (save_survey (save_survey init_db 7 [] ''Musical'' ''2026-11-03T09:00:00'')
       7 [] ''Linguistic'' ''2026-11-04T09:00:00'') 7 = Some ''Linguistic'' \<and>
   dominant_or_general
     (save_survey (save_survey init_db 7 [] ''Musical'' ''2026-11-03T09:00:00'')
       7 [] ''Linguistic'' ''2026-11-04T09:00:00'') 8 = ''General''"
proof -
  let ?d1 = "save_survey init_db 7 [] ''Musical'' ''2026-11-03T09:00:00''"
  let ?d2 = "save_survey ?d1 7 [] ''Linguistic'' ''2026-11-04T09:00:00''"
  have r1: "reachable ?d1" using reachable.start by (rule reachable.survey)
  have r2: "reachable ?d2" using r1 by (rule reachable.survey)
  have l: "get_latest_dominant_mi ?d2 7 = Some ''Linguistic''"
    using latest_dominant_is_last_survey [OF r1, of 7 "[]" "''Linguistic''"
        "''2026-11-04T09:00:00''"]
    by (rule conjunct2 [THEN conjunct2])
  have e: "[s \<leftarrow> survey_results ?d2. s_user_id s = 8] = []"
    by (simp add: save_survey_def init_db_def)
  have g: "dominant_or_general ?d2 8 = ''General''"
    using latest_dominant_is_last_survey [OF r2, of 8, THEN conjunct2, THEN conjunct1,
        rule_format, OF e]
    by (rule conjunct2)
  show ?thesis using r2 l g by (intro conjI)
qed

section \<open>Assignment to a class\<close>

lemma dominant_or_general_class_lessons:
  "dominant_or_general (d\<lparr>class_lessons := rows\<rparr>) user_id = dominant_or_general d user_id"
  by (simp add: dominant_or_general_def get_latest_dominant_mi_def)

lemma assign_loop_rows:
  "\<exists>rows shown.
     assign_loop api_key chat clock class_id topic subject text n i students (d, msgs) =
       (d\<lparr>class_lessons := class_lessons d @ rows\<rparr>, shown) \<and>
     map cl_student_id rows = map fst students \<and>
     list_all (\<lambda>r. cl_class_id r = class_id \<and>
        cl_topic r = (if topic = [] then ''Uploaded Lesson'' else topic) \<and>
        cl_subject r = (if subject = [] then ''General'' else subject)) rows \<and>
     map cl_mi_type rows = map (\<lambda>s. dominant_or_general d (fst s)) students \<and>
     map cl_content rows =
       map (\<lambda>(j, s). fst (generate_tailored_lesson api_key (chat j) text
              (dominant_or_general d (fst s))))
         (zip [i..<i + length students] students)"
proof (induction students arbitrary: d msgs i)
  case Nil
  have "assign_loop api_key chat clock class_id topic subject text n i [] (d, msgs) =
      (d\<lparr>class_lessons := class_lessons d @ []\<rparr>, msgs)" by simp
  then show ?case by fastforce
next
  case (Cons s rest)
  obtain sid sname where s: "s = (sid, sname)" by (cases s)
  let ?dom = "dominant_or_general d sid"
  let ?gen = "generate_tailored_lesson api_key (chat i) text ?dom"
  let ?r = "\<lparr>cl_id = next_rowid (map cl_id (class_lessons d)), cl_class_id = class_id,
          cl_student_id = sid,
          cl_topic = (if topic = [] then ''Uploaded Lesson'' else topic),
          cl_subject = (if subject = [] then ''General'' else subject),
          cl_mi_type = ?dom, cl_content = fst ?gen, cl_created_at = clock i\<rparr>"
  let ?d1 = "d\<lparr>class_lessons := class_lessons d @ [?r]\<rparr>"
  let ?m1 = "msgs @ snd ?gen @ [Progress i n]"
  have step: "assign_loop api_key chat clock class_id topic subject text n i (s # rest) (d, msgs) =
      assign_loop api_key chat clock class_id topic subject text n (Suc i) rest (?d1, ?m1)"
    by (simp add: s Let_def case_prod_beta save_class_lesson_def)
  from Cons.IH [of "Suc i" ?d1 ?m1] obtain rows shown where
    run: "assign_loop api_key chat clock class_id topic subject text n (Suc i) rest (?d1, ?m1) =
       (?d1\<lparr>class_lessons := class_lessons ?d1 @ rows\<rparr>, shown)"
    and ids: "map cl_student_id rows = map fst rest"
    and fixed: "list_all (\<lambda>r. cl_class_id r = class_id \<and>
        cl_topic r = (if topic = [] then ''Uploaded Lesson'' else topic) \<and>
        cl_subject r = (if subject = [] then ''General'' else subject)) rows"
    and mis: "map cl_mi_type rows = map (\<lambda>s. dominant_or_general ?d1 (fst s)) rest"
    and contents: "map cl_content rows =
       map (\<lambda>(j, s). fst (generate_tailored_lesson api_key (chat j) text
              (dominant_or_general ?d1 (fst s))))
         (zip [Suc i..<Suc i + length rest] rest)"
    by blast
  have upt: "[i..<i + length (s # rest)] = i # [Suc i..<Suc i + length rest]"
    by (simp add: upt_conv_Cons del: upt_Suc)
  have res: "assign_loop api_key chat clock class_id topic subject text n i (s # rest) (d, msgs) =
      (d\<lparr>class_lessons := class_lessons d @ (?r # rows)\<rparr>, shown)"
    unfolding step run by simp
  have ids': "map cl_student_id (?r # rows) = map fst (s # rest)"
    using ids by (simp add: s)
  have fixed': "list_all (\<lambda>r. cl_class_id r = class_id \<and>
        cl_topic r = (if topic = [] then ''Uploaded Lesson'' else topic) \<and>
        cl_subject r = (if subject = [] then ''General'' else subject)) (?r # rows)"
    using fixed by simp
  have mis': "map cl_mi_type (?r # rows) = map (\<lambda>s. dominant_or_general d (fst s)) (s # rest)"
    using mis by (simp add: s dominant_or_general_class_lessons)
  have contents': "map cl_content (?r # rows) =
       map (\<lambda>(j, s). fst (generate_tailored_lesson api_key (chat j) text
              (dominant_or_general d (fst s))))
         (zip [i..<i + length (s # rest)] (s # rest))"
    unfolding upt using contents by (simp add: s dominant_or_general_class_lessons)
  show ?case using res ids' fixed' mis' contents' by blast
qed

lemma distinct_students_of_class:
  "distinct (map (\<lambda>m. (m_class_id m, m_student_id m)) ms) \<Longrightarrow>
   distinct (map m_student_id [m \<leftarrow> ms. m_class_id m = class_id])"
proof (induction ms)
  case Nil
  show ?case by simp
next
  case (Cons m ms)
  have rest: "distinct (map m_student_id [m \<leftarrow> ms. m_class_id m = class_id])"
    using Cons by simp
  have fresh: "m_student_id m \<notin> m_student_id ` set [x \<leftarrow> ms. m_class_id x = class_id]"
    if "m_class_id m = class_id"
  proof
    assume "m_student_id m \<in> m_student_id ` set [x \<leftarrow> ms. m_class_id x = class_id]"
    then obtain x where x: "x \<in> set ms" "m_class_id x = class_id"
      "m_student_id x = m_student_id m" by auto
    then have "(m_class_id m, m_student_id m) \<in> (\<lambda>m. (m_class_id m, m_student_id m)) ` set ms"
      using that by force
    then show False using Cons.prems by simp
  qed
  show ?case using rest fresh by simp
qed

lemma distinct_joined_ids:
  assumes "distinct (map u_id us)"
  shows "distinct (map m_student_id ms) \<Longrightarrow>
    distinct (concat (map (\<lambda>m. map u_id [u \<leftarrow> us. u_id u = m_student_id m]) ms))"
proof (induction ms)
  case Nil
  show ?case by simp
next
  case (Cons m ms)
  have one: "distinct (map u_id [u \<leftarrow> us. u_id u = m_student_id m])"
    using assms by (rule distinct_map_filter)
  have rest: "distinct (concat (map (\<lambda>m. map u_id [u \<leftarrow> us. u_id u = m_student_id m]) ms))"
    using Cons by simp
  have apart: "set (map u_id [u \<leftarrow> us. u_id u = m_student_id m]) \<inter>
      set (concat (map (\<lambda>m. map u_id [u \<leftarrow> us. u_id u = m_student_id m]) ms)) = {}"
    using Cons.prems by auto
  show ?case using one rest apart by simp
qed

lemma students_ids:
  "map fst (get_students_in_class d class_id) =
     concat (map (\<lambda>m. map u_id [u \<leftarrow> users d. u_id u = m_student_id m])
       [m \<leftarrow> class_members d. m_class_id m = class_id])"
  by (simp add: get_students_in_class_def map_concat comp_def)

lemma students_distinct:
  assumes "store_inv d"
  shows "distinct (map fst (get_students_in_class d class_id))"
proof -
  have u: "distinct (map u_id (users d))"
    and m: "distinct (map (\<lambda>m. (m_class_id m, m_student_id m)) (class_members d))"
    using assms by (simp_all add: store_inv_def)
  show ?thesis
    unfolding students_ids
    using u distinct_students_of_class [OF m] by (rule distinct_joined_ids)
qed

lemma students_enrolled:
  "sid \<in> fst ` set (get_students_in_class d class_id) \<longleftrightarrow>
     (\<exists>m \<in> set (class_members d). m_class_id m = class_id \<and> m_student_id m = sid) \<and>
     (\<exists>u \<in> set (users d). u_id u = sid)"
  by (auto simp: get_students_in_class_def) force

lemma strip_Nil: "strip [] = []"
  by (simp add: strip_def lstrip_def rstrip_def)

lemma dominant_or_general_latest:
  assumes "store_inv d"
  shows "dominant_or_general d user_id = latest_survey_or_general d user_id"
proof (cases "[s \<leftarrow> survey_results d. s_user_id s = user_id]")
  case Nil
  then have "get_latest_dominant_mi d user_id = None"
    using get_latest_last [OF assms, of user_id] by simp
  then show ?thesis
    by (simp add: dominant_or_general_def latest_survey_or_general_def Nil)
next
  case (Cons row rows)
  then have "get_latest_dominant_mi d user_id = Some (s_dominant_mi (last (row # rows)))"
    using get_latest_last [OF assms, of user_id] by simp
  then show ?thesis
    by (simp add: dominant_or_general_def latest_survey_or_general_def Cons)
qed

text \<open>
  Claim C8, amended. For an assignment to a class in any state of the store: when the
  file cannot be read, or the extracted text is empty or only whitespace, errors are
  shown and nothing is stored; when the text is fit and the class has no student, an
  informational message is shown and nothing is stored; otherwise only class lessons
  are added, one row per student of the class in the order of the student list (no
  student is listed twice), each with the class, the student, the dominant category of
  the survey row inserted last for the student, or "General" when the student has no
  survey row, and the text tailored for that category. The students of a class are the
  users with a membership row in it.
\<close>

theorem assign_one_lesson_per_student:
  assumes "reachable d"
  shows
    "assign_to_class api_key chat clock d class_id topic subject (Some (Inl e)) =
       (d, [Error (''Could not read file: '' @ e),
            Error ''No extractable text found in the uploaded file.'']) \<and>
     (strip text = [] \<longrightarrow>
        assign_to_class api_key chat clock d class_id topic subject (Some (Inr text)) =
          (d, [Error ''No extractable text found in the uploaded file.''])) \<and>
     (strip text \<noteq> [] \<and> get_students_in_class d class_id = [] \<longrightarrow>
        assign_to_class api_key chat clock d class_id topic subject (Some (Inr text)) =
          (d, [Info ''No students in this class to assign to.''])) \<and>
     (strip text \<noteq> [] \<and> get_students_in_class d class_id \<noteq> [] \<longrightarrow>
        (\<exists>rows shown.
           assign_to_class api_key chat clock d class_id topic subject (Some (Inr text)) =
             (d\<lparr>class_lessons := class_lessons d @ rows\<rparr>, shown) \<and>
           map cl_student_id rows = map fst (get_students_in_class d class_id) \<and>
           distinct (map fst (get_students_in_class d class_id)) \<and>
           list_all (\<lambda>r. cl_class_id r = class_id \<and>
             cl_topic r = (if topic = [] then ''Uploaded Lesson'' else topic) \<and>
             cl_subject r = (if subject = [] then ''General'' else subject)) rows \<and>
           map cl_mi_type rows =
             map (\<lambda>s. dominant_or_general d (fst s)) (get_students_in_class d class_id) \<and>
           map cl_content rows =
             map (\<lambda>(j, s). fst (generate_tailored_lesson api_key (chat j) text
                    (dominant_or_general d (fst s))))
               (zip [1..<1 + length (get_students_in_class d class_id)]
                  (get_students_in_class d class_id)) \<and>
           map cl_mi_type rows =
             map (\<lambda>s. latest_survey_or_general d (fst s)) (get_students_in_class d class_id) \<and>
           map cl_content rows =
             map (\<lambda>(j, s). fst (generate_tailored_lesson api_key (chat j) text
                    (latest_survey_or_general d (fst s))))
               (zip [1..<1 + length (get_students_in_class d class_id)]
                  (get_students_in_class d class_id)))) \<and>
     (\<forall>sid. sid \<in> fst ` set (get_students_in_class d class_id) \<longleftrightarrow>
        (\<exists>m \<in> set (class_members d). m_class_id m = class_id \<and> m_student_id m = sid) \<and>
        (\<exists>u \<in> set (users d). u_id u = sid))"
proof -
  let ?students = "get_students_in_class d class_id"
  have inv: "store_inv d" using assms by (rule reachable_store_inv)
  have latest: "dominant_or_general d = latest_survey_or_general d"
    using dominant_or_general_latest [OF inv] by (rule ext)
  have failed: "assign_to_class api_key chat clock d class_id topic subject (Some (Inl e)) =
       (d, [Error (''Could not read file: '' @ e),
            Error ''No extractable text found in the uploaded file.''])"
    by (simp add: assign_to_class_def strip_Nil)
  have blank: "assign_to_class api_key chat clock d class_id topic subject (Some (Inr text)) =
          (d, [Error ''No extractable text found in the uploaded file.''])"
    if "strip text = []"
    using that by (simp add: assign_to_class_def)
  have nobody: "assign_to_class api_key chat clock d class_id topic subject (Some (Inr text)) =
          (d, [Info ''No students in this class to assign to.''])"
    if "strip text \<noteq> []" "?students = []"
    using that by (simp add: assign_to_class_def)
  have some: "\<exists>rows shown.
           assign_to_class api_key chat clock d class_id topic subject (Some (Inr text)) =
             (d\<lparr>class_lessons := class_lessons d @ rows\<rparr>, shown) \<and>
           map cl_student_id rows = map fst ?students \<and>
           distinct (map fst ?students) \<and>
           list_all (\<lambda>r. cl_class_id r = class_id \<and>
             cl_topic r = (if topic = [] then ''Uploaded Lesson'' else topic) \<and>
             cl_subject r = (if subject = [] then ''General'' else subject)) rows \<and>
           map cl_mi_type rows = map (\<lambda>s. dominant_or_general d (fst s)) ?students \<and>
           map cl_content rows =
             map (\<lambda>(j, s). fst (generate_tailored_lesson api_key (chat j) text
                    (dominant_or_general d (fst s))))
               (zip [1..<1 + length ?students] ?students) \<and>
           map cl_mi_type rows = map (\<lambda>s. latest_survey_or_general d (fst s)) ?students \<and>
           map cl_content rows =
             map (\<lambda>(j, s). fst (generate_tailored_lesson api_key (chat j) text
                    (latest_survey_or_general d (fst s))))
               (zip [1..<1 + length ?students] ?students)"
    if t: "strip text \<noteq> []" and st: "?students \<noteq> []"
  proof -
    from assign_loop_rows [of api_key chat clock class_id topic subject "text"
        "length ?students" 1 "?students" d "[]"]
    obtain rows shown where
      run: "assign_loop api_key chat clock class_id topic subject text (length ?students) 1
          ?students (d, []) = (d\<lparr>class_lessons := class_lessons d @ rows\<rparr>, shown)"
      and props: "map cl_student_id rows = map fst ?students"
        "list_all (\<lambda>r. cl_class_id r = class_id \<and>
             cl_topic r = (if topic = [] then ''Uploaded Lesson'' else topic) \<and>
             cl_subject r = (if subject = [] then ''General'' else subject)) rows"
        "map cl_mi_type rows = map (\<lambda>s. dominant_or_general d (fst s)) ?students"
        "map cl_content rows =
             map (\<lambda>(j, s). fst (generate_tailored_lesson api_key (chat j) text
                    (dominant_or_general d (fst s))))
               (zip [1..<1 + length ?students] ?students)"
      by blast
    have res: "assign_to_class api_key chat clock d class_id topic subject (Some (Inr text)) =
        (d\<lparr>class_lessons := class_lessons d @ rows\<rparr>,
         shown @ [Success ''Assigned tailored lessons to all students in class.''])"
      using t st run by (simp add: assign_to_class_def Let_def)
    have dist: "distinct (map fst ?students)" using inv by (rule students_distinct)
    have props': "map cl_mi_type rows = map (\<lambda>s. latest_survey_or_general d (fst s)) ?students"
        "map cl_content rows =
             map (\<lambda>(j, s). fst (generate_tailored_lesson api_key (chat j) text
                    (latest_survey_or_general d (fst s))))
               (zip [1..<1 + length ?students] ?students)"
      using props(3,4) unfolding latest by simp_all
    show ?thesis using res props props' dist by blast
  qed
  have enrolled: "\<forall>sid. sid \<in> fst ` set ?students \<longleftrightarrow>
        (\<exists>m \<in> set (class_members d). m_class_id m = class_id \<and> m_student_id m = sid) \<and>
        (\<exists>u \<in> set (users d). u_id u = sid)"
    using students_enrolled by blast
  show ?thesis
  proof (intro conjI impI)
    show "assign_to_class api_key chat clock d class_id topic subject (Some (Inl e)) =
       (d, [Error (''Could not read file: '' @ e),
            Error ''No extractable text found in the uploaded file.''])"
      by (rule failed)
  qed (use blank nobody some enrolled in auto)
qed

lemma enrolled_example_reachable:
  "reachable (init_db\<lparr>
     users := [\<lparr>u_id = 1, u_name = ''Juan D. Cruz'', u_role = ''student'',
       u_password = ''sha256:secret''\<rparr>],
     classes := [\<lparr>c_id = 1, c_teacher_id = 2, c_name = ''Algebra I'', c_code = ''AHOV29'',
       c_created_at = ''2026-11-04T09:00:00''\<rparr>],
     class_members := [\<lparr>m_id = 1, m_class_id = 1, m_student_id = 1,
       m_joined_at = ''2026-11-04T10:00:00''\<rparr>]\<rparr>)"
proof -
  let ?u = "\<lparr>u_id = 1, u_name = ''Juan D. Cruz'', u_role = ''student'',
       u_password = ''sha256:secret''\<rparr>"
  let ?c = "\<lparr>c_id = 1, c_teacher_id = 2, c_name = ''Algebra I'', c_code = ''AHOV29'',
       c_created_at = ''2026-11-04T09:00:00''\<rparr>"
  let ?m = "\<lparr>m_id = 1, m_class_id = 1, m_student_id = 1,
       m_joined_at = ''2026-11-04T10:00:00''\<rparr>"
  let ?d1 = "init_db\<lparr>users := [?u]\<rparr>"
  let ?d2 = "init_db\<lparr>users := [?u], classes := [?c]\<rparr>"
  let ?d3 = "init_db\<lparr>users := [?u], classes := [?c], class_members := [?m]\<rparr>"
  have u: "create_user (\<lambda>pw. ''sha256:'' @ pw) init_db ''Juan D. Cruz'' ''student'' ''secret'' =
      Inr (1, ?d1)"
    by (simp add: create_user_def hash_pw_def init_db_def next_rowid_def)
  have r1: "reachable ?d1" using reachable.start u by (rule reachable.user)
  have rnd: "\<forall>i < 6. (\<lambda>i. 7 * i) i < length alphabet"
    by (simp add: alphabet_def)
  have code: "random_choices alphabet 6 (\<lambda>i. 7 * i) = ''AHOV29''"
    by (simp add: random_choices_def alphabet_def upt_rec)
  have c: "create_class ?d1 2 ''Algebra I'' (\<lambda>i. 7 * i) ''2026-11-04T09:00:00'' =
      Inr (''AHOV29'', ?d2)"
    by (simp add: create_class_def code init_db_def next_rowid_def Let_def)
  have r2: "reachable ?d2" using r1 rnd c by (rule reachable.new_class)
  have j: "join_class_by_code ?d2 1 ''AHOV29'' ''2026-11-04T10:00:00'' =
      ((True, ''Joined successfully.''), ?d3)"
    by (simp add: join_class_by_code_def fetchone_def init_db_def next_rowid_def Let_def)
  show ?thesis using r2 j by (rule reachable.member)
qed

lemma enrolled_example_students:
  "get_students_in_class (init_db\<lparr>
     users := [\<lparr>u_id = 1, u_name = ''Juan D. Cruz'', u_role = ''student'',
       u_password = ''sha256:secret''\<rparr>],
     classes := [\<lparr>c_id = 1, c_teacher_id = 2, c_name = ''Algebra I'', c_code = ''AHOV29'',
       c_created_at = ''2026-11-04T09:00:00''\<rparr>],
     class_members := [\<lparr>m_id = 1, m_class_id = 1, m_student_id = 1,
       m_joined_at = ''2026-11-04T10:00:00''\<rparr>]\<rparr>) 1 = [(1, ''Juan D. Cruz'')]"
  by (simp add: get_students_in_class_def)

text \<open>
  A class with one enrolled student and an extracted text of one newline (a file with
  no text on its pages): the text is not empty, the class has a student, and no class
  lesson is stored.
\<close>

theorem assign_one_lesson_per_student_counterexample:
  "[nl] \<noteq> [] \<and>
   get_students_in_class (init_db\<lparr>
     users := [\<lparr>u_id = 1, u_name = ''Juan D. Cruz'', u_role = ''student'',
       u_password = ''sha256:secret''\<rparr>],
     classes := [\<lparr>c_id = 1, c_teacher_id = 2, c_name = ''Algebra I'', c_code = ''AHOV29'',
       c_created_at = ''2026-11-04T09:00:00''\<rparr>],
     class_members := [\<lparr>m_id = 1, m_class_id = 1, m_student_id = 1,
       m_joined_at = ''2026-11-04T10:00:00''\<rparr>]\<rparr>) 1 = [(1, ''Juan D. Cruz'')] \<and>
   assign_to_class None (\<lambda>i prompt. Inr prompt) (\<lambda>i. ''2026-11-04T12:00:00'')
     (init_db\<lparr>
       users := [\<lparr>u_id = 1, u_name = ''Juan D. Cruz'', u_role = ''student'',
         u_password = ''sha256:secret''\<rparr>],
       classes := [\<lparr>c_id = 1, c_teacher_id = 2, c_name = ''Algebra I'', c_code = ''AHOV29'',
         c_created_at = ''2026-11-04T09:00:00''\<rparr>],
       class_members := [\<lparr>m_id = 1, m_class_id = 1, m_student_id = 1,
         m_joined_at = ''2026-11-04T10:00:00''\<rparr>]\<rparr>)
     1 ''Fractions'' ''Mathematics'' (Some (Inr [nl])) =
     (init_db\<lparr>
       users := [\<lparr>u_id = 1, u_name = ''Juan D. Cruz'', u_role = ''student'',
         u_password = ''sha256:secret''\<rparr>],
       classes := [\<lparr>c_id = 1, c_teacher_id = 2, c_name = ''Algebra I'', c_code = ''AHOV29'',
         c_created_at = ''2026-11-04T09:00:00''\<rparr>],
       class_members := [\<lparr>m_id = 1, m_class_id = 1, m_student_id = 1,
         m_joined_at = ''2026-11-04T10:00:00''\<rparr>]\<rparr>,
      [Error ''No extractable text found in the uploaded file.''])"
proof -
  have s: "strip [nl] = []"
    by (simp add: strip_def lstrip_def rstrip_def is_space_def nl_def)
  show ?thesis
    using enrolled_example_students by (simp add: assign_to_class_def s)
qed

lemma surveyed_example_reachable:
  "reachable (init_db\<lparr>
     users := [\<lparr>u_id = 1, u_name = ''Juan D. Cruz'', u_role = ''student'',
         u_password = ''sha256:secret''\<rparr>,
       \<lparr>u_id = 2, u_name = ''Maria L. Santos'', u_role = ''student'',
         u_password = ''sha256:hidden''\<rparr>],
     survey_results := [\<lparr>s_id = 1, s_user_id = 1, s_mi_scores = [],
         s_dominant_mi = ''Musical'', s_created_at = ''2026-11-03T09:00:00''\<rparr>,
       \<lparr>s_id = 2, s_user_id = 1, s_mi_scores = [],
         s_dominant_mi = ''Linguistic'', s_created_at = ''2026-11-04T09:00:00''\<rparr>],
     classes := [\<lparr>c_id = 1, c_teacher_id = 3, c_name = ''Algebra I'', c_code = ''AHOV29'',
         c_created_at = ''2026-11-04T09:30:00''\<rparr>],
     class_members := [\<lparr>m_id = 1, m_class_id = 1, m_student_id = 1,
         m_joined_at = ''2026-11-04T10:00:00''\<rparr>,
       \<lparr>m_id = 2, m_class_id = 1, m_student_id = 2,
         m_joined_at = ''2026-11-04T10:05:00''\<rparr>]\<rparr>)"
proof -
  let ?u1 = "\<lparr>u_id = 1, u_name = ''Juan D. Cruz'', u_role = ''student'',
         u_password = ''sha256:secret''\<rparr>"
  let ?u2 = "\<lparr>u_id = 2, u_name = ''Maria L. Santos'', u_role = ''student'',
         u_password = ''sha256:hidden''\<rparr>"
  let ?s1 = "\<lparr>s_id = 1, s_user_id = 1, s_mi_scores = [],
         s_dominant_mi = ''Musical'', s_created_at = ''2026-11-03T09:00:00''\<rparr>"
  let ?s2 = "\<lparr>s_id = 2, s_user_id = 1, s_mi_scores = [],
         s_dominant_mi = ''Linguistic'', s_created_at = ''2026-11-04T09:00:00''\<rparr>"
  let ?c = "\<lparr>c_id = 1, c_teacher_id = 3, c_name = ''Algebra I'', c_code = ''AHOV29'',
         c_created_at = ''2026-11-04T09:30:00''\<rparr>"
  let ?m1 = "\<lparr>m_id = 1, m_class_id = 1, m_student_id = 1,
         m_joined_at = ''2026-11-04T10:00:00''\<rparr>"
  let ?m2 = "\<lparr>m_id = 2, m_class_id = 1, m_student_id = 2,
         m_joined_at = ''2026-11-04T10:05:00''\<rparr>"
  let ?d1 = "init_db\<lparr>users := [?u1]\<rparr>"
  let ?d2 = "init_db\<lparr>users := [?u1, ?u2]\<rparr>"
  let ?d3 = "init_db\<lparr>users := [?u1, ?u2], survey_results := [?s1]\<rparr>"
  let ?d4 = "init_db\<lparr>users := [?u1, ?u2], survey_results := [?s1, ?s2]\<rparr>"
  let ?d5 = "init_db\<lparr>users := [?u1, ?u2], survey_results := [?s1, ?s2], classes := [?c]\<rparr>"
  let ?d6 = "init_db\<lparr>users := [?u1, ?u2], survey_results := [?s1, ?s2], classes := [?c],
      class_members := [?m1]\<rparr>"
  let ?d7 = "init_db\<lparr>users := [?u1, ?u2], survey_results := [?s1, ?s2], classes := [?c],
      class_members := [?m1, ?m2]\<rparr>"
  have u1: "create_user (\<lambda>pw. ''sha256:'' @ pw) init_db ''Juan D. Cruz'' ''student'' ''secret'' =
      Inr (1, ?d1)"
    by (simp add: create_user_def hash_pw_def init_db_def next_rowid_def)
  have r1: "reachable ?d1" using reachable.start u1 by (rule reachable.user)
  have u2: "create_user (\<lambda>pw. ''sha256:'' @ pw) ?d1 ''Maria L. Santos'' ''student'' ''hidden'' =
      Inr (2, ?d2)"
    by (simp add: create_user_def hash_pw_def init_db_def next_rowid_def)
  have r2: "reachable ?d2" using r1 u2 by (rule reachable.user)
  have s1: "save_survey ?d2 1 [] ''Musical'' ''2026-11-03T09:00:00'' = ?d3"
    by (simp add: save_survey_def init_db_def next_rowid_def)
  have "reachable (save_survey ?d2 1 [] ''Musical'' ''2026-11-03T09:00:00'')"
    using r2 by (rule reachable.survey)
  then have r3: "reachable ?d3" by (simp only: s1)
  have s2: "save_survey ?d3 1 [] ''Linguistic'' ''2026-11-04T09:00:00'' = ?d4"
    by (simp add: save_survey_def init_db_def next_rowid_def)
  have "reachable (save_survey ?d3 1 [] ''Linguistic'' ''2026-11-04T09:00:00'')"
    using r3 by (rule reachable.survey)
  then have r4: "reachable ?d4" by (simp only: s2)
  have rnd: "\<forall>i < 6. (\<lambda>i. 7 * i) i < length alphabet"
    by (simp add: alphabet_def)
  have code: "random_choices alphabet 6 (\<lambda>i. 7 * i) = ''AHOV29''"
    by (simp add: random_choices_def alphabet_def upt_rec)
  have c: "create_class ?d4 3 ''Algebra I'' (\<lambda>i. 7 * i) ''2026-11-04T09:30:00'' =
      Inr (''AHOV29'', ?d5)"
    by (simp add: create_class_def code init_db_def next_rowid_def Let_def)
  have r5: "reachable ?d5" using r4 rnd c by (rule reachable.new_class)
  have j1: "join_class_by_code ?d5 1 ''AHOV29'' ''2026-11-04T10:00:00'' =
      ((True, ''Joined successfully.''), ?d6)"
    by (simp add: join_class_by_code_def fetchone_def init_db_def next_rowid_def Let_def)
  have r6: "reachable ?d6" using r5 j1 by (rule reachable.member)
  have j2: "join_class_by_code ?d6 2 ''AHOV29'' ''2026-11-04T10:05:00'' =
      ((True, ''Joined successfully.''), ?d7)"
    by (simp add: join_class_by_code_def fetchone_def init_db_def next_rowid_def Let_def)
  show ?thesis using r6 j2 by (rule reachable.member)
qed

lemma surveyed_example_students:
  "get_students_in_class (init_db\<lparr>
     users := [\<lparr>u_id = 1, u_name = ''Juan D. Cruz'', u_role = ''student'',
         u_password = ''sha256:secret''\<rparr>,
       \<lparr>u_id = 2, u_name = ''Maria L. Santos'', u_role = ''student'',
         u_password = ''sha256:hidden''\<rparr>],
     survey_results := [\<lparr>s_id = 1, s_user_id = 1, s_mi_scores = [],
         s_dominant_mi = ''Musical'', s_created_at = ''2026-11-03T09:00:00''\<rparr>,
       \<lparr>s_id = 2, s_user_id = 1, s_mi_scores = [],
         s_dominant_mi = ''Linguistic'', s_created_at = ''2026-11-04T09:00:00''\<rparr>],
     classes := [\<lparr>c_id = 1, c_teacher_id = 3, c_name = ''Algebra I'', c_code = ''AHOV29'',
         c_created_at = ''2026-11-04T09:30:00''\<rparr>],
     class_members := [\<lparr>m_id = 1, m_class_id = 1, m_student_id = 1,
         m_joined_at = ''2026-11-04T10:00:00''\<rparr>,
       \<lparr>m_id = 2, m_class_id = 1, m_student_id = 2,
         m_joined_at = ''2026-11-04T10:05:00''\<rparr>]\<rparr>) 1 =
     [(1, ''Juan D. Cruz''), (2, ''Maria L. Santos'')]"
  by (simp add: get_students_in_class_def)

theorem assign_one_lesson_per_student_witness:
  "reachable (init_db\<lparr>
     users := [\<lparr>u_id = 1, u_name = ''Juan D. Cruz'', u_role = ''student'',
         u_password = ''sha256:secret''\<rparr>,
       \<lparr>u_id = 2, u_name = ''Maria L. Santos'', u_role = ''student'',
         u_password = ''sha256:hidden''\<rparr>],
     survey_results := [\<lparr>s_id = 1, s_user_id = 1, s_mi_scores = [],
         s_dominant_mi = ''Musical'', s_created_at = ''2026-11-03T09:00:00''\<rparr>,
       \<lparr>s_id = 2, s_user_id = 1, s_mi_scores = [],
         s_dominant_mi = ''Linguistic'', s_created_at = ''2026-11-04T09:00:00''\<rparr>],
     classes := [\<lparr>c_id = 1, c_teacher_id = 3, c_name = ''Algebra I'', c_code = ''AHOV29'',
         c_created_at = ''2026-11-04T09:30:00''\<rparr>],
     class_members := [\<lparr>m_id = 1, m_class_id = 1, m_student_id = 1,
         m_joined_at = ''2026-11-04T10:00:00''\<rparr>,
       \<lparr>m_id = 2, m_class_id = 1, m_student_id = 2,
         m_joined_at = ''2026-11-04T10:05:00''\<rparr>]\<rparr>) \<and>
   strip ''Fractions are parts of a whole.'' \<noteq> [] \<and>
   (\<exists>rows shown.
      assign_to_class None (\<lambda>i prompt. Inr prompt) (\<lambda>i. ''2026-11-04T12:00:00'')
        (init_db\<lparr>
          users := [\<lparr>u_id = 1, u_name = ''Juan D. Cruz'', u_role = ''student'',
              u_password = ''sha256:secret''\<rparr>,
            \<lparr>u_id = 2, u_name = ''Maria L. Santos'', u_role = ''student'',
              u_password = ''sha256:hidden''\<rparr>],
          survey_results := [\<lparr>s_id = 1, s_user_id = 1, s_mi_scores = [],
              s_dominant_mi = ''Musical'', s_created_at = ''2026-11-03T09:00:00''\<rparr>,
            \<lparr>s_id = 2, s_user_id = 1, s_mi_scores = [],
              s_dominant_mi = ''Linguistic'', s_created_at = ''2026-11-04T09:00:00''\<rparr>],
          classes := [\<lparr>c_id = 1, c_teacher_id = 3, c_name = ''Algebra I'',
              c_code = ''AHOV29'', c_created_at = ''2026-11-04T09:30:00''\<rparr>],
          class_members := [\<lparr>m_id = 1, m_class_id = 1, m_student_id = 1,
              m_joined_at = ''2026-11-04T10:00:00''\<rparr>,
            \<lparr>m_id = 2, m_class_id = 1, m_student_id = 2,
              m_joined_at = ''2026-11-04T10:05:00''\<rparr>]\<rparr>)
        1 ''Fractions'' ''Mathematics'' (Some (Inr ''Fractions are parts of a whole.'')) =
        (init_db\<lparr>
          users := [\<lparr>u_id = 1, u_name = ''Juan D. Cruz'', u_role = ''student'',
              u_password = ''sha256:secret''\<rparr>,
            \<lparr>u_id = 2, u_name = ''Maria L. Santos'', u_role = ''student'',
              u_password = ''sha256:hidden''\<rparr>],
          survey_results := [\<lparr>s_id = 1, s_user_id = 1, s_mi_scores = [],
              s_dominant_mi = ''Musical'', s_created_at = ''2026-11-03T09:00:00''\<rparr>,
            \<lparr>s_id = 2, s_user_id = 1, s_mi_scores = [],
              s_dominant_mi = ''Linguistic'', s_created_at = ''2026-11-04T09:00:00''\<rparr>],
          classes := [\<lparr>c_id = 1, c_teacher_id = 3, c_name = ''Algebra I'',
              c_code = ''AHOV29'', c_created_at = ''2026-11-04T09:30:00''\<rparr>],
          class_members := [\<lparr>m_id = 1, m_class_id = 1, m_student_id = 1,
              m_joined_at = ''2026-11-04T10:00:00''\<rparr>,
            \<lparr>m_id = 2, m_class_id = 1, m_student_id = 2,
              m_joined_at = ''2026-11-04T10:05:00''\<rparr>],
          class_lessons := rows\<rparr>, shown) \<and>
      map cl_student_id rows = [1, 2] \<and>
      map cl_mi_type rows = [''Linguistic'', ''General''] \<and>
      map cl_content rows =
        [''[Tailored for Linguistic] (No OpenAI key configured)'' @ [nl, nl] @
         ''Key points:'' @ [nl] @ ''- Fractions are parts of a whole.'' @ [nl, nl] @
         ''Practice:'' @ [nl] @ ''1) ...'' @ [nl] @ ''2) ...'',
         ''[Tailored for General] (No OpenAI key configured)'' @ [nl, nl] @
         ''Key points:'' @ [nl] @ ''- Fractions are parts of a whole.'' @ [nl, nl] @
         ''Practice:'' @ [nl] @ ''1) ...'' @ [nl] @ ''2) ...''])"
proof -
  let ?d = "init_db\<lparr>
     users := [\<lparr>u_id = 1, u_name = ''Juan D. Cruz'', u_role = ''student'',
         u_password = ''sha256:secret''\<rparr>,
       \<lparr>u_id = 2, u_name = ''Maria L. Santos'', u_role = ''student'',
         u_password = ''sha256:hidden''\<rparr>],
     survey_results := [\<lparr>s_id = 1, s_user_id = 1, s_mi_scores = [],
         s_dominant_mi = ''Musical'', s_created_at = ''2026-11-03T09:00:00''\<rparr>,
       \<lparr>s_id = 2, s_user_id = 1, s_mi_scores = [],
         s_dominant_mi = ''Linguistic'', s_created_at = ''2026-11-04T09:00:00''\<rparr>],
     classes := [\<lparr>c_id = 1, c_teacher_id = 3, c_name = ''Algebra I'', c_code = ''AHOV29'',
         c_created_at = ''2026-11-04T09:30:00''\<rparr>],
     class_members := [\<lparr>m_id = 1, m_class_id = 1, m_student_id = 1,
         m_joined_at = ''2026-11-04T10:00:00''\<rparr>,
       \<lparr>m_id = 2, m_class_id = 1, m_student_id = 2,
         m_joined_at = ''2026-11-04T10:05:00''\<rparr>]\<rparr>"
  let ?text = "''Fractions are parts of a whole.''"
  have r: "reachable ?d" by (rule surveyed_example_reachable)
  have st: "get_students_in_class ?d 1 = [(1, ''Juan D. Cruz''), (2, ''Maria L. Santos'')]"
    by (rule surveyed_example_students)
  have t: "strip ?text \<noteq> []"
    by (simp add: strip_def lstrip_def rstrip_def is_space_def)
  have h: "strip ?text \<noteq> [] \<and> get_students_in_class ?d 1 \<noteq> []"
    using t st by simp
  have l1: "latest_survey_or_general ?d 1 = ''Linguistic''"
    by (simp add: latest_survey_or_general_def)
  have l2: "latest_survey_or_general ?d 2 = ''General''"
    by (simp add: latest_survey_or_general_def)
  have g1: "fst (generate_tailored_lesson None (\<lambda>prompt. Inr prompt) ?text ''Linguistic'') =
        ''[Tailored for Linguistic] (No OpenAI key configured)'' @ [nl, nl] @
         ''Key points:'' @ [nl] @ ''- Fractions are parts of a whole.'' @ [nl, nl] @
         ''Practice:'' @ [nl] @ ''1) ...'' @ [nl] @ ''2) ...''"
    by (simp add: generate_tailored_lesson_def no_api_key_def replace_nl_def nl_def)
  have g2: "fst (generate_tailored_lesson None (\<lambda>prompt. Inr prompt) ?text ''General'') =
        ''[Tailored for General] (No OpenAI key configured)'' @ [nl, nl] @
         ''Key points:'' @ [nl] @ ''- Fractions are parts of a whole.'' @ [nl, nl] @
         ''Practice:'' @ [nl] @ ''1) ...'' @ [nl] @ ''2) ...''"
    by (simp add: generate_tailored_lesson_def no_api_key_def replace_nl_def nl_def)
  from assign_one_lesson_per_student [OF r, of None "\<lambda>i prompt. Inr prompt"
      "\<lambda>i. ''2026-11-04T12:00:00''" 1 "''Fractions''" "''Mathematics''" _ ?text,
      THEN conjunct2, THEN conjunct2, THEN conjunct2, THEN conjunct1, rule_format, OF h]
  obtain rows shown where
    run: "assign_to_class None (\<lambda>i prompt. Inr prompt) (\<lambda>i. ''2026-11-04T12:00:00'') ?d
        1 ''Fractions'' ''Mathematics'' (Some (Inr ?text)) =
        (?d\<lparr>class_lessons := class_lessons ?d @ rows\<rparr>, shown)"
    and ids: "map cl_student_id rows = map fst (get_students_in_class ?d 1)"
    and mis: "map cl_mi_type rows =
        map (\<lambda>s. latest_survey_or_general ?d (fst s)) (get_students_in_class ?d 1)"
    and contents: "map cl_content rows =
        map (\<lambda>(j, s). fst (generate_tailored_lesson None (\<lambda>prompt. Inr prompt) ?text
               (latest_survey_or_general ?d (fst s))))
          (zip [1..<1 + length (get_students_in_class ?d 1)] (get_students_in_class ?d 1))"
    by blast
  have run': "assign_to_class None (\<lambda>i prompt. Inr prompt) (\<lambda>i. ''2026-11-04T12:00:00'') ?d
        1 ''Fractions'' ''Mathematics'' (Some (Inr ?text)) = (?d\<lparr>class_lessons := rows\<rparr>, shown)"
    using run by (simp add: init_db_def)
  have ids': "map cl_student_id rows = [1, 2]" using ids unfolding st by simp
  have mis': "map cl_mi_type rows = [''Linguistic'', ''General'']"
    using mis l1 l2 unfolding st by simp
  have contents': "map cl_content rows =
        [''[Tailored for Linguistic] (No OpenAI key configured)'' @ [nl, nl] @
         ''Key points:'' @ [nl] @ ''- Fractions are parts of a whole.'' @ [nl, nl] @
         ''Practice:'' @ [nl] @ ''1) ...'' @ [nl] @ ''2) ...'',
         ''[Tailored for General] (No OpenAI key configured)'' @ [nl, nl] @
         ''Key points:'' @ [nl] @ ''- Fractions are parts of a whole.'' @ [nl, nl] @
         ''Practice:'' @ [nl] @ ''1) ...'' @ [nl] @ ''2) ...'']"
    using contents l1 l2 g1 g2 unfolding st by (simp add: upt_rec)
  have ex: "\<exists>rows shown.
      assign_to_class None (\<lambda>i prompt. Inr prompt) (\<lambda>i. ''2026-11-04T12:00:00'') ?d
        1 ''Fractions'' ''Mathematics'' (Some (Inr ?text)) = (?d\<lparr>class_lessons := rows\<rparr>, shown) \<and>
      map cl_student_id rows = [1, 2] \<and>
      map cl_mi_type rows = [''Linguistic'', ''General''] \<and>
      map cl_content rows =
        [''[Tailored for Linguistic] (No OpenAI key configured)'' @ [nl, nl] @
         ''Key points:'' @ [nl] @ ''- Fractions are parts of a whole.'' @ [nl, nl] @
         ''Practice:'' @ [nl] @ ''1) ...'' @ [nl] @ ''2) ...'',
         ''[Tailored for General] (No OpenAI key configured)'' @ [nl, nl] @
         ''Key points:'' @ [nl] @ ''- Fractions are parts of a whole.'' @ [nl, nl] @
         ''Practice:'' @ [nl] @ ''1) ...'' @ [nl] @ ''2) ...'']"
    using run' ids' mis' contents' by (intro exI conjI)
  show ?thesis using r t ex by (intro conjI)
qed

end
